theory Spec2Isabelle
  imports Main "HOL-Library.AList" "HOL-Library.Char_ord" "HOL-Library.List_Lexorder"
begin

section \<open>The data model of smartcontract.go\<close>

text \<open>
  The three structs of the chaincode. Go's \<open>int\<close> fields are carried as \<open>int\<close>:
  the program never computes with them (it stores, reloads and compares them), so no
  overflow can occur in a field. The only arithmetic of the program, \<open>latestID++\<close>,
  is modelled with its 64-bit wrap-around (\<open>int_incr\<close> below).
  The field names carry the struct's name as a prefix, since \<open>ID\<close> and \<open>Points\<close>
  occur in several structs.
\<close>

record CTIData =
  cti_ID :: string
  cti_Name :: string
  cti_Uploader :: string
  cti_Timestamp :: int
  cti_CID :: string
  cti_EncryptKey :: string
  cti_Points :: int
  cti_Level :: int

record UserData =
  user_ID :: string
  user_UserLevel :: int
  user_UploadCount :: int
  user_Points :: int
  user_Subscribed :: int
  user_Balance :: int

record ReviewData =
  review_ID :: string
  review_UserDataID :: string
  review_CTIDataID :: string
  review_Accuracy :: int
  review_Timeliness :: int
  review_Completeness :: int
  review_Consistency :: int
  review_ReviewText :: string

text \<open>
  The program returns Go \<open>error\<close> values built by \<open>fmt.Errorf\<close>. The model keeps
  one constructor for each kind of failure site:
  \<^item> \<open>IdentityUnavailable\<close>: \<open>GetClientIdentity().GetID()\<close> failed;
  \<^item> \<open>LedgerUnavailable\<close>: a stub call (\<open>GetState\<close>, \<open>PutState\<close>, \<open>DelState\<close>,
    \<open>GetStateByRange\<close>, the iterator's \<open>Next\<close>) failed;
  \<^item> \<open>InvalidState\<close>: \<open>strconv.Atoi\<close> rejected the stored counter;
  \<^item> \<open>NotFound\<close>: the "... does not exist" errors;
  \<^item> \<open>Corrupt\<close>: \<open>json.Unmarshal\<close> failed.
\<close>

datatype error = IdentityUnavailable | LedgerUnavailable | InvalidState | NotFound | Corrupt

section \<open>Library functions the program calls\<close>

subsection \<open>strconv.Itoa, strconv.Atoi and the increment of a Go int\<close>

definition digit_char :: "nat \<Rightarrow> char" where
  "digit_char d = ''0123456789'' ! d"

fun dec :: "nat \<Rightarrow> string" where
  "dec n = (if n < 10 then [digit_char n] else dec (n div 10) @ [digit_char (n mod 10)])"

declare dec.simps [simp del]

text \<open>\<open>strconv.Itoa\<close>, which is also what the verb \<open>%d\<close> of \<open>fmt.Sprintf\<close> prints.\<close>

definition Itoa :: "int \<Rightarrow> string" where
  "Itoa i = (if i < 0 then CHR ''-'' # dec (nat (- i)) else dec (nat i))"

definition digit_val :: "char \<Rightarrow> nat option" where
  "digit_val c =
     (let n = (of_char c :: nat) in if 48 \<le> n \<and> n \<le> 57 then Some (n - 48) else None)"

fun parse_digits :: "nat \<Rightarrow> string \<Rightarrow> nat option" where
  "parse_digits acc [] = Some acc"
| "parse_digits acc (c # cs) =
     (case digit_val c of None \<Rightarrow> None | Some d \<Rightarrow> parse_digits (acc * 10 + d) cs)"

text \<open>
  \<open>strconv.Atoi\<close> on a 64-bit platform: an optional sign, then at least one decimal
  digit and nothing else; a value outside \<open>[-2^63, 2^63)\<close> is a range error.
  \<open>None\<close> stands for either error.
\<close>

definition Atoi :: "string \<Rightarrow> int option" where
  "Atoi s =
     (case s of
        [] \<Rightarrow> None
      | c # cs \<Rightarrow>
          (let ds = (if c = CHR ''-'' \<or> c = CHR ''+'' then cs else s) in
           if ds = [] then None
           else (case parse_digits 0 ds of
                   None \<Rightarrow> None
                 | Some n \<Rightarrow>
                     if c = CHR ''-''
                     then (if 2 ^ 63 < n then None else Some (- int n))
                     else (if 2 ^ 63 \<le> n then None else Some (int n)))))"

text \<open>\<open>latestID++\<close> on a 64-bit \<open>int\<close>: Go wraps silently at the largest value.\<close>

definition int_incr :: "int \<Rightarrow> int" where
  "int_incr n = (if n = 2 ^ 63 - 1 then - (2 ^ 63) else n + 1)"

subsection \<open>Ledger values and encoding/json\<close>

text \<open>
  The ledger stores byte strings. The program writes two kinds: the decimal text of a
  counter (\<open>strconv.Itoa\<close>) and \<open>json.Marshal\<close> of one of its three structs. The model
  keeps a stored value in tagged form: \<open>CTIJson\<close>, \<open>UserJson\<close> and \<open>ReviewJson\<close> are
  the JSON objects that \<open>json.Marshal\<close> produces for the structs, and \<open>Text s\<close> is any
  other byte string \<open>s\<close> (a counter, for one); a JSON object is never given as \<open>Text\<close>.
  \<open>json.Marshal\<close> cannot fail on a struct of strings and ints, so its error branches
  are unreachable and left out. Strings are taken to be valid UTF-8, which
  \<open>json.Marshal\<close> writes and \<open>json.Unmarshal\<close> reads back unchanged.
\<close>

datatype bytes = Text string | CTIJson CTIData | UserJson UserData | ReviewJson ReviewData

definition zeroCTI :: CTIData where
  "zeroCTI = \<lparr>cti_ID = [], cti_Name = [], cti_Uploader = [], cti_Timestamp = 0, cti_CID = [],
     cti_EncryptKey = [], cti_Points = 0, cti_Level = 0\<rparr>"

definition zeroUser :: UserData where
  "zeroUser = \<lparr>user_ID = [], user_UserLevel = 0, user_UploadCount = 0, user_Points = 0,
     user_Subscribed = 0, user_Balance = 0\<rparr>"

definition zeroReview :: ReviewData where
  "zeroReview = \<lparr>review_ID = [], review_UserDataID = [], review_CTIDataID = [],
     review_Accuracy = 0, review_Timeliness = 0, review_Completeness = 0,
     review_Consistency = 0, review_ReviewText = []\<rparr>"

text \<open>
  The JSON literal \<open>null\<close>, which may stand between JSON white space (space, tab, line
  feed, carriage return).
\<close>

definition json_space :: "char \<Rightarrow> bool" where
  "json_space c = (c = CHR '' '' \<or> c = CHR 0x09 \<or> c = CHR 0x0A \<or> c = CHR 0x0D)"

definition json_null :: "string \<Rightarrow> bool" where
  "json_null s = (dropWhile json_space (rev (dropWhile json_space (rev s))) = ''null'')"

text \<open>
  \<open>json.Unmarshal\<close> into a fresh (zero) struct. From a JSON object it sets the fields
  whose JSON names occur in the object (compared case-insensitively) and leaves the
  others at their zero values; it does not reject the object of another struct. The
  three structs share the name \<open>ID\<close>, and \<open>CTIData\<close> and \<open>UserData\<close> share \<open>Points\<close>;
  no other name is shared. On \<open>null\<close> it does nothing and reports no error, so the
  struct stays zero. On every other byte string that is no object (a number such as a
  counter, a string, an array, \<open>true\<close>, \<open>false\<close>, or no JSON at all) it fails.
\<close>

fun UnmarshalCTI :: "bytes \<Rightarrow> CTIData option" where
  "UnmarshalCTI (CTIJson c) = Some c"
| "UnmarshalCTI (UserJson u) = Some (zeroCTI\<lparr>cti_ID := user_ID u, cti_Points := user_Points u\<rparr>)"
| "UnmarshalCTI (ReviewJson r) = Some (zeroCTI\<lparr>cti_ID := review_ID r\<rparr>)"
| "UnmarshalCTI (Text s) = (if json_null s then Some zeroCTI else None)"

fun UnmarshalUser :: "bytes \<Rightarrow> UserData option" where
  "UnmarshalUser (UserJson u) = Some u"
| "UnmarshalUser (CTIJson c) = Some (zeroUser\<lparr>user_ID := cti_ID c, user_Points := cti_Points c\<rparr>)"
| "UnmarshalUser (ReviewJson r) = Some (zeroUser\<lparr>user_ID := review_ID r\<rparr>)"
| "UnmarshalUser (Text s) = (if json_null s then Some zeroUser else None)"

fun UnmarshalReview :: "bytes \<Rightarrow> ReviewData option" where
  "UnmarshalReview (ReviewJson r) = Some r"
| "UnmarshalReview (CTIJson c) = Some (zeroReview\<lparr>review_ID := cti_ID c\<rparr>)"
| "UnmarshalReview (UserJson u) = Some (zeroReview\<lparr>review_ID := user_ID u\<rparr>)"
| "UnmarshalReview (Text s) = (if json_null s then Some zeroReview else None)"

text \<open>\<open>strconv.Atoi(string(idBytes))\<close>: the text of a JSON object is no numeral.\<close>

fun AtoiBytes :: "bytes \<Rightarrow> int option" where
  "AtoiBytes (Text s) = Atoi s"
| "AtoiBytes (CTIJson c) = None"
| "AtoiBytes (UserJson u) = None"
| "AtoiBytes (ReviewJson r) = None"

subsection \<open>The transaction context: client identity and ledger stub\<close>

text \<open>
  The world state is an association list from keys to stored values; \<open>map_of\<close> reads
  it. Whether a call of the stub fails is decided outside the program, so the context of
  a transaction carries it: \<open>client_id\<close> is the result of \<open>GetID\<close> (\<open>None\<close> when it
  fails), and the \<open>_err\<close> fields say for which keys a stub call fails.
\<close>

type_synonym world = "(string \<times> bytes) list"

record ctx =
  client_id :: "string option"
  get_err :: "string \<Rightarrow> bool"
  put_err :: "string \<Rightarrow> bool"
  del_err :: "string \<Rightarrow> bool"
  range_err :: bool
  next_err :: "string \<Rightarrow> bool"

text \<open>
  \<open>GetState\<close> returns the value (nil when the key is absent) and the error; a failed
  read returns nil bytes with its error, as the Fabric shim does.
\<close>

definition GetState :: "ctx \<Rightarrow> world \<Rightarrow> string \<Rightarrow> bytes option \<times> error option" where
  "GetState c w k = (if get_err c k then (None, Some LedgerUnavailable) else (map_of w k, None))"

definition PutState :: "ctx \<Rightarrow> world \<Rightarrow> string \<Rightarrow> bytes \<Rightarrow> error option \<times> world" where
  "PutState c w k v =
     (if put_err c k then (Some LedgerUnavailable, w) else (None, AList.update k v w))"

definition DelState :: "ctx \<Rightarrow> world \<Rightarrow> string \<Rightarrow> error option \<times> world" where
  "DelState c w k =
     (if del_err c k then (Some LedgerUnavailable, w) else (None, AList.delete k w))"

text \<open>
  \<open>GetStateByRange\<close>: the entries whose key \<open>k\<close> has \<open>startKey \<le> k < endKey\<close> in
  the bytewise lexicographic order, in key order, each key once.
\<close>

definition in_range :: "string \<Rightarrow> string \<Rightarrow> string \<times> bytes \<Rightarrow> bool" where
  "in_range startKey endKey kv = (startKey \<le> fst kv \<and> fst kv < endKey)"

definition GetStateByRange :: "ctx \<Rightarrow> world \<Rightarrow> string \<Rightarrow> string \<Rightarrow> error + (string \<times> bytes) list" where
  "GetStateByRange c w startKey endKey =
     (if range_err c then Inl LedgerUnavailable
      else Inr (sort_key fst (filter (in_range startKey endKey) (AList.clearjunk w))))"

section \<open>The chaincode\<close>

text \<open>
  Every function takes the transaction context and the world state. A function that
  writes returns the world state it leaves behind next to its Go result; a function that
  only reads returns its Go result. A Go result \<open>error\<close> is an \<open>error option\<close>
  (\<open>None\<close> is \<open>nil\<close>), a Go result \<open>(T, error)\<close> is \<open>error + T\<close>.
\<close>

text \<open>
  \<open>AddCTIItem\<close>. The \<open>return\<close> in the body of \<open>if err != nil\<close> after the read of
  \<open>latestID\<close> is commented out in the source, so the error of that read is dropped and
  the function goes on with the bytes the read returned.
\<close>

definition AddCTIItem ::
  "ctx \<Rightarrow> world \<Rightarrow> string \<Rightarrow> int \<Rightarrow> string \<Rightarrow> string \<Rightarrow> int \<Rightarrow> int \<Rightarrow> error option \<times> world" where
  "AddCTIItem c w name timestamp cid encryptKey points level =
     (case client_id c of
        None \<Rightarrow> (Some IdentityUnavailable, w)
      | Some uploader \<Rightarrow>
          (let (idBytes, err) = GetState c w ''latestID'' in
           (case (case idBytes of
                    None \<Rightarrow> Inr 1
                  | Some b \<Rightarrow>
                      (case AtoiBytes b of
                         None \<Rightarrow> Inl InvalidState
                       | Some n \<Rightarrow> Inr (int_incr n))) of
              Inl e \<Rightarrow> (Some e, w)
            | Inr latestID \<Rightarrow>
                (let ctiItem = \<lparr>cti_ID = Itoa latestID, cti_Name = name, cti_Uploader = uploader,
                       cti_Timestamp = timestamp, cti_CID = cid, cti_EncryptKey = encryptKey,
                       cti_Points = points, cti_Level = level\<rparr>
                 in (case PutState c w (''CTI_'' @ Itoa latestID) (CTIJson ctiItem) of
                       (Some e, w1) \<Rightarrow> (Some e, w1)
                     | (None, w1) \<Rightarrow> PutState c w1 ''latestID'' (Text (Itoa latestID)))))))"

definition UpdateCTIItem ::
  "ctx \<Rightarrow> world \<Rightarrow> string \<Rightarrow> string \<Rightarrow> int \<Rightarrow> string \<Rightarrow> string \<Rightarrow> int \<Rightarrow> int \<Rightarrow> error option \<times> world" where
  "UpdateCTIItem c w itemId name timestamp cid encryptKey points level =
     (case client_id c of
        None \<Rightarrow> (Some IdentityUnavailable, w)
      | Some uploader \<Rightarrow>
          (case GetState c w (''CTI_'' @ itemId) of
             (ctiItemJSON, Some e) \<Rightarrow> (Some e, w)
           | (None, None) \<Rightarrow> (Some NotFound, w)
           | (Some old, None) \<Rightarrow>
               (let ctiItem = \<lparr>cti_ID = itemId, cti_Name = name, cti_Uploader = uploader,
                      cti_Timestamp = timestamp, cti_CID = cid, cti_EncryptKey = encryptKey,
                      cti_Points = points, cti_Level = level\<rparr>
                in PutState c w (''CTI_'' @ itemId) (CTIJson ctiItem))))"

definition GetCTIItem :: "ctx \<Rightarrow> world \<Rightarrow> int \<Rightarrow> error + CTIData" where
  "GetCTIItem c w itemId =
     (case GetState c w (''CTI_'' @ Itoa itemId) of
        (ctiItemJSON, Some e) \<Rightarrow> Inl e
      | (None, None) \<Rightarrow> Inl NotFound
      | (Some b, None) \<Rightarrow> (case UnmarshalCTI b of None \<Rightarrow> Inl Corrupt | Some ctiItem \<Rightarrow> Inr ctiItem))"

text \<open>The loop of \<open>GetAllCTIItems\<close> over the iterator.\<close>

fun collectCTI :: "ctx \<Rightarrow> (string \<times> bytes) list \<Rightarrow> error + CTIData list" where
  "collectCTI c [] = Inr []"
| "collectCTI c (item # rest) =
     (if next_err c (fst item) then Inl LedgerUnavailable
      else (case UnmarshalCTI (snd item) of
              None \<Rightarrow> Inl Corrupt
            | Some ctiItem \<Rightarrow>
                (case collectCTI c rest of
                   Inl e \<Rightarrow> Inl e
                 | Inr ctiItems \<Rightarrow> Inr (ctiItem # ctiItems))))"

definition GetAllCTIItems :: "ctx \<Rightarrow> world \<Rightarrow> error + CTIData list" where
  "GetAllCTIItems c w =
     (case GetStateByRange c w ''CTI_0'' ''CTI_999999'' of
        Inl e \<Rightarrow> Inl e
      | Inr resultsIterator \<Rightarrow> collectCTI c resultsIterator)"

text \<open>\<open>AddUserData\<close>: the struct literal names no \<open>UserLevel\<close>, which is therefore zero.\<close>

definition AddUserData :: "ctx \<Rightarrow> world \<Rightarrow> int \<Rightarrow> int \<Rightarrow> int \<Rightarrow> int \<Rightarrow> error option \<times> world" where
  "AddUserData c w uploadCount points subscribed balance =
     (case client_id c of
        None \<Rightarrow> (Some IdentityUnavailable, w)
      | Some user \<Rightarrow>
          (let userData = \<lparr>user_ID = user, user_UserLevel = 0, user_UploadCount = uploadCount,
                 user_Points = points, user_Subscribed = subscribed, user_Balance = balance\<rparr>
           in PutState c w (''UserData_'' @ user) (UserJson userData)))"

definition GetUserDataOld :: "ctx \<Rightarrow> world \<Rightarrow> string \<Rightarrow> error + UserData" where
  "GetUserDataOld c w user =
     (case GetState c w (''UserData_'' @ user) of
        (userDataJSON, Some e) \<Rightarrow> Inl e
      | (None, None) \<Rightarrow> Inl NotFound
      | (Some b, None) \<Rightarrow> (case UnmarshalUser b of None \<Rightarrow> Inl Corrupt | Some userData \<Rightarrow> Inr userData))"

definition GetUserData :: "ctx \<Rightarrow> world \<Rightarrow> (error + UserData) \<times> world" where
  "GetUserData c w =
     (case client_id c of
        None \<Rightarrow> (Inl IdentityUnavailable, w)
      | Some peerID \<Rightarrow>
          (case GetState c w (''UserData_'' @ peerID) of
             (userDataJSON, Some e) \<Rightarrow> (Inl e, w)
           | (None, None) \<Rightarrow>
               (let userData = \<lparr>user_ID = peerID, user_UserLevel = 0, user_UploadCount = 0,
                      user_Points = 0, user_Subscribed = 0, user_Balance = 0\<rparr>
                in (case PutState c w (''UserData_'' @ peerID) (UserJson userData) of
                      (Some e, w1) \<Rightarrow> (Inl e, w1)
                    | (None, w1) \<Rightarrow> (Inr userData, w1)))
           | (Some b, None) \<Rightarrow>
               (case UnmarshalUser b of None \<Rightarrow> (Inl Corrupt, w) | Some userData \<Rightarrow> (Inr userData, w))))"

definition UpdateUserData :: "ctx \<Rightarrow> world \<Rightarrow> int \<Rightarrow> int \<Rightarrow> int \<Rightarrow> int \<Rightarrow> error option \<times> world" where
  "UpdateUserData c w uploadCount points subscribed balance =
     (case client_id c of
        None \<Rightarrow> (Some IdentityUnavailable, w)
      | Some peerID \<Rightarrow>
          (case GetState c w (''UserData_'' @ peerID) of
             (existingUserDataJSON, Some e) \<Rightarrow> (Some e, w)
           | (None, None) \<Rightarrow> (Some NotFound, w)
           | (Some b, None) \<Rightarrow>
               (case UnmarshalUser b of
                  None \<Rightarrow> (Some Corrupt, w)
                | Some existingUserData \<Rightarrow>
                    PutState c w (''UserData_'' @ peerID)
                      (UserJson (existingUserData\<lparr>user_UploadCount := uploadCount,
                         user_Points := points, user_Subscribed := subscribed,
                         user_Balance := balance\<rparr>)))))"

definition generateUniqueID :: "ctx \<Rightarrow> world \<Rightarrow> string \<Rightarrow> (error + string) \<times> world" where
  "generateUniqueID c w prefix =
     (case GetState c w (''latestID_'' @ prefix) of
        (idBytes, Some e) \<Rightarrow> (Inl e, w)
      | (idBytes, None) \<Rightarrow>
          (case (case idBytes of
                   None \<Rightarrow> Inr 1
                 | Some b \<Rightarrow>
                     (case AtoiBytes b of
                        None \<Rightarrow> Inl InvalidState
                      | Some n \<Rightarrow> Inr (int_incr n))) of
             Inl e \<Rightarrow> (Inl e, w)
           | Inr latestID \<Rightarrow>
               (case PutState c w (''latestID_'' @ prefix) (Text (Itoa latestID)) of
                  (Some e, w1) \<Rightarrow> (Inl e, w1)
                | (None, w1) \<Rightarrow> (Inr (prefix @ ''_'' @ Itoa latestID), w1))))"

definition AddReviewData ::
  "ctx \<Rightarrow> world \<Rightarrow> string \<Rightarrow> int \<Rightarrow> int \<Rightarrow> int \<Rightarrow> int \<Rightarrow> string \<Rightarrow> error option \<times> world" where
  "AddReviewData c w ctiDataID accuracy timeliness completeness consistency reviewText =
     (case client_id c of
        None \<Rightarrow> (Some IdentityUnavailable, w)
      | Some peerID \<Rightarrow>
          (case GetState c w (''CTI_'' @ ctiDataID) of
             (ctiItemJSON, Some e) \<Rightarrow> (Some e, w)
           | (None, None) \<Rightarrow> (Some NotFound, w)
           | (Some b, None) \<Rightarrow>
               (case generateUniqueID c w ''Review'' of
                  (Inl e, w1) \<Rightarrow> (Some e, w1)
                | (Inr reviewID, w1) \<Rightarrow>
                    (let review = \<lparr>review_ID = reviewID, review_UserDataID = peerID,
                           review_CTIDataID = ctiDataID, review_Accuracy = accuracy,
                           review_Timeliness = timeliness, review_Completeness = completeness,
                           review_Consistency = consistency, review_ReviewText = reviewText\<rparr>
                     in PutState c w1 (''Review_'' @ reviewID) (ReviewJson review)))))"

text \<open>The loop of \<open>GetAllReviewData\<close> over the iterator.\<close>

fun collectReview :: "ctx \<Rightarrow> (string \<times> bytes) list \<Rightarrow> error + ReviewData list" where
  "collectReview c [] = Inr []"
| "collectReview c (item # rest) =
     (if next_err c (fst item) then Inl LedgerUnavailable
      else (case UnmarshalReview (snd item) of
              None \<Rightarrow> Inl Corrupt
            | Some review \<Rightarrow>
                (case collectReview c rest of
                   Inl e \<Rightarrow> Inl e
                 | Inr reviews \<Rightarrow> Inr (review # reviews))))"

definition GetAllReviewData :: "ctx \<Rightarrow> world \<Rightarrow> error + ReviewData list" where
  "GetAllReviewData c w =
     (case GetStateByRange c w ''Review_'' ''Review_z'' of
        Inl e \<Rightarrow> Inl e
      | Inr iterator \<Rightarrow> collectReview c iterator)"

definition GetReviewDataByCTIDataID :: "ctx \<Rightarrow> world \<Rightarrow> string \<Rightarrow> error + ReviewData list" where
  "GetReviewDataByCTIDataID c w ctiDataID =
     (case GetAllReviewData c w of
        Inl e \<Rightarrow> Inl e
      | Inr allReviewData \<Rightarrow>
          Inr (filter (\<lambda>review. review_CTIDataID review = ctiDataID) allReviewData))"

definition GetCTIItemsFilteredBySubscriptionLevel :: "ctx \<Rightarrow> world \<Rightarrow> (error + CTIData list) \<times> world" where
  "GetCTIItemsFilteredBySubscriptionLevel c w =
     (case GetAllCTIItems c w of
        Inl e \<Rightarrow> (Inl e, w)
      | Inr allCTIItems \<Rightarrow>
          (case GetUserData c w of
             (Inl e, w1) \<Rightarrow> (Inl e, w1)
           | (Inr userData, w1) \<Rightarrow>
               (Inr (filter (\<lambda>ctiItem. cti_Level ctiItem \<le> user_Subscribed userData) allCTIItems),
                w1)))"

definition DeleteCTIItemByID :: "ctx \<Rightarrow> world \<Rightarrow> string \<Rightarrow> error option \<times> world" where
  "DeleteCTIItemByID c w itemId =
     (case GetState c w (''CTI_'' @ itemId) of
        (existingItemJSON, Some e) \<Rightarrow> (Some e, w)
      | (None, None) \<Rightarrow> (Some NotFound, w)
      | (Some b, None) \<Rightarrow> DelState c w (''CTI_'' @ itemId))"

text \<open>A context in which the identity resolves to \<open>u\<close> and no stub call fails.\<close>

definition ok_ctx :: "string \<Rightarrow> ctx" where
  "ok_ctx u = \<lparr>client_id = Some u, get_err = (\<lambda>k. False), put_err = (\<lambda>k. False),
     del_err = (\<lambda>k. False), range_err = False, next_err = (\<lambda>k. False)\<rparr>"

section \<open>Sequences of calls\<close>

text \<open>
  A sequence of \<open>AddCTIItem\<close> transactions: each call has its own context and its six
  arguments, and runs on the world state the call before it left. The trace lists, for
  every call, its result and the world state after it.
\<close>

type_synonym item_args = "string \<times> int \<times> string \<times> string \<times> int \<times> int"

fun AddCTIItem_call :: "ctx \<times> item_args \<Rightarrow> world \<Rightarrow> error option \<times> world" where
  "AddCTIItem_call (c, name, timestamp, cid, encryptKey, points, level) w =
     AddCTIItem c w name timestamp cid encryptKey points level"

fun AddCTIItem_trace :: "(ctx \<times> item_args) list \<Rightarrow> world \<Rightarrow> (error option \<times> world) list" where
  "AddCTIItem_trace [] w = []"
| "AddCTIItem_trace (call # calls) w =
     AddCTIItem_call call w # AddCTIItem_trace calls (snd (AddCTIItem_call call w))"

text \<open>The stored counter of the intel sequence, as the next \<open>AddCTIItem\<close> parses it.\<close>

definition stored_counter :: "world \<Rightarrow> int option" where
  "stored_counter w = (case map_of w ''latestID'' of None \<Rightarrow> None | Some b \<Rightarrow> AtoiBytes b)"

text \<open>
  The public operations of the contract, for sequences of arbitrary transactions. The
  five operations that only read (\<open>GetCTIItem\<close>, \<open>GetAllCTIItems\<close>, \<open>GetUserDataOld\<close>,
  \<open>GetAllReviewData\<close>, \<open>GetReviewDataByCTIDataID\<close>) are functions of the world state
  with no world state in their result, so they leave it as it is.
\<close>

datatype operation =
    OpAddCTIItem string int string string int int
  | OpUpdateCTIItem string string int string string int int
  | OpGetCTIItem int
  | OpGetAllCTIItems
  | OpAddUserData int int int int
  | OpGetUserDataOld string
  | OpGetUserData
  | OpUpdateUserData int int int int
  | OpAddReviewData string int int int int string
  | OpGetAllReviewData
  | OpGetReviewDataByCTIDataID string
  | OpGetCTIItemsFilteredBySubscriptionLevel
  | OpDeleteCTIItemByID string

fun exec :: "ctx \<times> operation \<Rightarrow> world \<Rightarrow> world" where
  "exec (c, OpAddCTIItem name timestamp cid encryptKey points level) w =
     snd (AddCTIItem c w name timestamp cid encryptKey points level)"
| "exec (c, OpUpdateCTIItem itemId name timestamp cid encryptKey points level) w =
     snd (UpdateCTIItem c w itemId name timestamp cid encryptKey points level)"
| "exec (c, OpGetCTIItem itemId) w = w"
| "exec (c, OpGetAllCTIItems) w = w"
| "exec (c, OpAddUserData uploadCount points subscribed balance) w =
     snd (AddUserData c w uploadCount points subscribed balance)"
| "exec (c, OpGetUserDataOld user) w = w"
| "exec (c, OpGetUserData) w = snd (GetUserData c w)"
| "exec (c, OpUpdateUserData uploadCount points subscribed balance) w =
     snd (UpdateUserData c w uploadCount points subscribed balance)"
| "exec (c, OpAddReviewData ctiDataID accuracy timeliness completeness consistency reviewText) w =
     snd (AddReviewData c w ctiDataID accuracy timeliness completeness consistency reviewText)"
| "exec (c, OpGetAllReviewData) w = w"
| "exec (c, OpGetReviewDataByCTIDataID ctiDataID) w = w"
| "exec (c, OpGetCTIItemsFilteredBySubscriptionLevel) w =
     snd (GetCTIItemsFilteredBySubscriptionLevel c w)"
| "exec (c, OpDeleteCTIItemByID itemId) w = snd (DeleteCTIItemByID c w itemId)"

text \<open>The world state after a sequence of transactions, the first one first.\<close>

fun run :: "(ctx \<times> operation) list \<Rightarrow> world \<Rightarrow> world" where
  "run [] w = w"
| "run (t # ts) w = run ts (exec t w)"

text \<open>An entry of the world state that holds an account record holds one with \<open>UserLevel\<close> zero.\<close>

fun level_zero :: "string \<times> bytes \<Rightarrow> bool" where
  "level_zero (k, UserJson u) = (user_UserLevel u = 0)"
| "level_zero (k, CTIJson i) = True"
| "level_zero (k, ReviewJson r) = True"
| "level_zero (k, Text s) = True"

text \<open>
  An entry of the world state under an account key \<open>UserData_p\<close> holds the account
  record of \<open>p\<close> itself, with \<open>UserLevel\<close> zero.
\<close>

fun account_entry :: "string \<times> bytes \<Rightarrow> bool" where
  "account_entry (k, UserJson u) =
     (if take 9 k = ''UserData_'' then user_ID u = drop 9 k \<and> user_UserLevel u = 0 else True)"
| "account_entry (k, CTIJson i) = (take 9 k \<noteq> ''UserData_'')"
| "account_entry (k, ReviewJson r) = (take 9 k \<noteq> ''UserData_'')"
| "account_entry (k, Text s) = (take 9 k \<noteq> ''UserData_'')"

text \<open>Example records for evaluating the operations on concrete ledgers.\<close>

definition example_item :: "string \<Rightarrow> int \<Rightarrow> CTIData" where
  "example_item i l = \<lparr>cti_ID = i, cti_Name = ''n'', cti_Uploader = ''bob'', cti_Timestamp = 1,
     cti_CID = ''c'', cti_EncryptKey = ''k'', cti_Points = 2, cti_Level = l\<rparr>"

definition example_account :: "string \<Rightarrow> int \<Rightarrow> UserData" where
  "example_account p s = \<lparr>user_ID = p, user_UserLevel = 0, user_UploadCount = 0,
     user_Points = 0, user_Subscribed = s, user_Balance = 0\<rparr>"

section \<open>Decimal numerals\<close>

lemmas stub_defs = GetState_def PutState_def DelState_def GetStateByRange_def in_range_def
  ok_ctx_def

lemmas num_defs = Itoa_def dec.simps digit_char_def Atoi_def digit_val_def int_incr_def

lemmas chaincode_defs = AddCTIItem_def UpdateCTIItem_def GetCTIItem_def GetAllCTIItems_def
  AddUserData_def GetUserDataOld_def GetUserData_def UpdateUserData_def generateUniqueID_def
  AddReviewData_def GetAllReviewData_def GetReviewDataByCTIDataID_def
  GetCTIItemsFilteredBySubscriptionLevel_def DeleteCTIItemByID_def Let_def

lemma digit_val_digit_char: "d < 10 \<Longrightarrow> digit_val (digit_char d) = Some d"
proof -
  assume "d < 10"
  then have "d \<in> {0, 1, 2, 3, 4, 5, 6, 7, 8, 9}" by auto
  then show ?thesis by (auto simp: digit_val_def digit_char_def)
qed

lemma digit_char_no_sign:
  "d < 10 \<Longrightarrow> digit_char d \<noteq> CHR ''-'' \<and> digit_char d \<noteq> CHR ''+''"
proof -
  assume "d < 10"
  then have "d \<in> {0, 1, 2, 3, 4, 5, 6, 7, 8, 9}" by auto
  then show ?thesis by (auto simp: digit_char_def)
qed

lemma dec_Cons: "\<exists>d r. d < 10 \<and> dec n = digit_char d # r"
proof (induction n rule: dec.induct)
  case (1 n)
  show ?case
  proof (cases "n < 10")
    case True
    then show ?thesis by (subst dec.simps) auto
  next
    case False
    with 1 obtain d r where "d < 10" "dec (n div 10) = digit_char d # r" by blast
    with False show ?thesis by (subst dec.simps) auto
  qed
qed

lemma parse_digits_append:
  "parse_digits acc (xs @ ys) =
     (case parse_digits acc xs of None \<Rightarrow> None | Some a \<Rightarrow> parse_digits a ys)"
  by (induction xs arbitrary: acc) (auto split: option.splits)

lemma parse_digits_dec: "parse_digits 0 (dec n) = Some n"
proof (induction n rule: dec.induct)
  case (1 n)
  show ?case
  proof (cases "n < 10")
    case True
    then show ?thesis by (subst dec.simps) (simp add: digit_val_digit_char)
  next
    case False
    with 1 have "parse_digits 0 (dec (n div 10)) = Some (n div 10)" by simp
    with False show ?thesis
      by (subst dec.simps) (simp add: parse_digits_append digit_val_digit_char)
  qed
qed

text \<open>\<open>Atoi\<close> reads back what \<open>Itoa\<close> prints, for every value of a 64-bit \<open>int\<close>.\<close>

lemma Atoi_Itoa: "- (2 ^ 63) \<le> i \<Longrightarrow> i < 2 ^ 63 \<Longrightarrow> Atoi (Itoa i) = Some i"
proof -
  assume lo: "- (2 ^ 63) \<le> i" and hi: "i < 2 ^ 63"
  show ?thesis
  proof (cases "i < 0")
    case True
    obtain d r where d: "d < 10" "dec (nat (- i)) = digit_char d # r"
      using dec_Cons by blast
    have "parse_digits 0 (digit_char d # r) = Some (nat (- i))"
      using parse_digits_dec [of "nat (- i)"] d by simp
    moreover have "\<not> 2 ^ 63 < nat (- i)" using lo by (simp add: nat_less_iff)
    ultimately show ?thesis using True d
      by (simp add: Atoi_def Itoa_def)
  next
    case False
    obtain d r where d: "d < 10" "dec (nat i) = digit_char d # r"
      using dec_Cons by blast
    have "parse_digits 0 (digit_char d # r) = Some (nat i)"
      using parse_digits_dec [of "nat i"] d by simp
    moreover have "\<not> 2 ^ 63 \<le> nat i" using hi False by (simp add: nat_le_iff)
    ultimately show ?thesis using False d digit_char_no_sign [of d]
      by (simp add: Atoi_def Itoa_def)
  qed
qed

section \<open>ID allocation and ledger read failures\<close>

text \<open>
  \<open>generateUniqueID\<close>, the allocator of \<open>AddReviewData\<close>, returns the error of a failed
  read of its counter and writes nothing.
\<close>

lemma generateUniqueID_read_error:
  "get_err c (''latestID_'' @ prefix) \<Longrightarrow>
   generateUniqueID c w prefix = (Inl LedgerUnavailable, w)"
  by (simp add: generateUniqueID_def GetState_def)

lemma AddReviewData_read_error:
  assumes "client_id c = Some p" and "\<not> get_err c (''CTI_'' @ i)"
    and "map_of w (''CTI_'' @ i) = Some b" and "get_err c ''latestID_Review''"
  shows "AddReviewData c w i a t co cs txt = (Some LedgerUnavailable, w)"
  using assms by (simp add: AddReviewData_def generateUniqueID_def GetState_def)

text \<open>
  \<open>AddCTIItem\<close> does not: whatever the ledger holds, a call whose read of \<open>latestID\<close>
  fails (identity and writes working) succeeds, stores its item under \<open>CTI_1\<close> and sets
  the counter to 1.
\<close>

lemma AddCTIItem_read_error_dropped:
  assumes "client_id c = Some u" and "get_err c ''latestID''" and "\<forall>k. \<not> put_err c k"
  shows "AddCTIItem c w name timestamp cid encryptKey points level
     = (None, AList.update ''latestID'' (Text ''1'')
                (AList.update ''CTI_1''
                   (CTIJson \<lparr>cti_ID = ''1'', cti_Name = name, cti_Uploader = u,
                      cti_Timestamp = timestamp, cti_CID = cid, cti_EncryptKey = encryptKey,
                      cti_Points = points, cti_Level = level\<rparr>) w))"
  using assms
  by (simp add: AddCTIItem_def GetState_def PutState_def Let_def Itoa_def dec.simps
        digit_char_def)

text \<open>
  C1. A failed ledger read of the stored counter must make the operation fail, and the
  operation must never go on to write an entity from a default counter value. The
  allocator of \<open>AddReviewData\<close> does so (lemmas above); \<open>AddCTIItem\<close> does not. On a
  ledger that holds items 1 and 2 and the counter 2, a call whose read of \<open>latestID\<close>
  fails returns no error, takes the counter for absent, allocates 1 again, replaces the
  item stored under \<open>CTI_1\<close> and sets the counter back to 1.
\<close>

theorem C1_AddCTIItem_drops_read_error:
  "AddCTIItem ((ok_ctx ''bob'')\<lparr>get_err := (\<lambda>k. k = ''latestID'')\<rparr>)
     [(''CTI_1'', CTIJson \<lparr>cti_ID = ''1'', cti_Name = ''first'', cti_Uploader = ''alice'',
         cti_Timestamp = 10, cti_CID = ''c1'', cti_EncryptKey = ''k1'', cti_Points = 5,
         cti_Level = 0\<rparr>),
      (''CTI_2'', CTIJson \<lparr>cti_ID = ''2'', cti_Name = ''second'', cti_Uploader = ''alice'',
         cti_Timestamp = 20, cti_CID = ''c2'', cti_EncryptKey = ''k2'', cti_Points = 6,
         cti_Level = 0\<rparr>),
      (''latestID'', Text ''2'')]
     ''third'' 30 ''c3'' ''k3'' 7 1
   = (None,
      [(''CTI_1'', CTIJson \<lparr>cti_ID = ''1'', cti_Name = ''third'', cti_Uploader = ''bob'',
          cti_Timestamp = 30, cti_CID = ''c3'', cti_EncryptKey = ''k3'', cti_Points = 7,
          cti_Level = 1\<rparr>),
       (''CTI_2'', CTIJson \<lparr>cti_ID = ''2'', cti_Name = ''second'', cti_Uploader = ''alice'',
          cti_Timestamp = 20, cti_CID = ''c2'', cti_EncryptKey = ''k2'', cti_Points = 6,
          cti_Level = 0\<rparr>),
       (''latestID'', Text ''1'')])"
  by (simp add: AddCTIItem_def stub_defs num_defs)

section \<open>Range scans and writes outside the range\<close>

lemma filter_in_range_update:
  "\<not> (s \<le> k \<and> k < e) \<Longrightarrow>
   filter (in_range s e) (AList.update k v al) = filter (in_range s e) al"
  by (induction al) (auto simp: in_range_def)

lemma filter_in_range_delete:
  "\<not> (s \<le> k \<and> k < e) \<Longrightarrow>
   filter (in_range s e) (AList.delete k al) = filter (in_range s e) al"
  by (induction al) (auto simp: in_range_def)

lemma GetStateByRange_update:
  "\<not> (s \<le> k \<and> k < e) \<Longrightarrow>
   GetStateByRange c (AList.update k v w) s e = GetStateByRange c w s e"
  by (simp add: GetStateByRange_def clearjunk_update filter_in_range_update)

lemma GetStateByRange_delete:
  "\<not> (s \<le> k \<and> k < e) \<Longrightarrow>
   GetStateByRange c (AList.delete k w) s e = GetStateByRange c w s e"
  by (simp add: GetStateByRange_def clearjunk_delete filter_in_range_delete)

text \<open>A write to an account key is outside the range that \<open>GetAllCTIItems\<close> scans.\<close>

lemma GetAllCTIItems_update_user:
  "GetAllCTIItems c (AList.update (''UserData_'' @ p) v w) = GetAllCTIItems c w"
  by (simp add: GetAllCTIItems_def GetStateByRange_update)


section \<open>The \<open>UserLevel\<close> of stored accounts\<close>

lemma level_zero_update:
  "list_all level_zero w \<Longrightarrow> level_zero (k, v) \<Longrightarrow> list_all level_zero (AList.update k v w)"
proof (induction w)
  case Nil
  then show ?case by (cases v) simp_all
next
  case (Cons a w)
  obtain k' v' where a: "a = (k', v')" by (cases a)
  have "level_zero (k', v)" using Cons.prems(2) by (cases v) simp_all
  with Cons a show ?case by simp
qed

lemma level_zero_delete:
  "list_all level_zero w \<Longrightarrow> list_all level_zero (AList.delete k w)"
  by (induction w) auto

lemma level_zero_PutState:
  "list_all level_zero w \<Longrightarrow> level_zero (k, v) \<Longrightarrow> list_all level_zero (snd (PutState c w k v))"
  by (simp add: PutState_def level_zero_update)

lemma level_zero_lookup:
  "list_all level_zero w \<Longrightarrow> map_of w k = Some b \<Longrightarrow> level_zero (k, b)"
  by (auto simp: list_all_iff dest: map_of_SomeD)

lemma level_zero_Unmarshal:
  assumes "list_all level_zero w" and "map_of w k = Some b" and "UnmarshalUser b = Some u"
  shows "user_UserLevel u = 0"
proof -
  have "level_zero (k, b)" using assms(1,2) by (rule level_zero_lookup)
  with assms(3) show ?thesis by (cases b) (auto simp: zeroUser_def split: if_splits)
qed

lemma level_zero_AddCTIItem:
  "list_all level_zero w \<Longrightarrow> list_all level_zero (snd (AddCTIItem c w n t ci e p l))"
  by (auto simp: AddCTIItem_def GetState_def PutState_def Let_def level_zero_update
        split: option.splits sum.splits if_splits prod.splits)

lemma level_zero_UpdateCTIItem:
  "list_all level_zero w \<Longrightarrow> list_all level_zero (snd (UpdateCTIItem c w i n t ci e p l))"
  by (auto simp: UpdateCTIItem_def GetState_def PutState_def Let_def level_zero_update
        split: option.splits if_splits)

lemma level_zero_AddUserData:
  "list_all level_zero w \<Longrightarrow> list_all level_zero (snd (AddUserData c w a b s d))"
  by (auto simp: AddUserData_def PutState_def Let_def level_zero_update
        split: option.splits if_splits)

lemma level_zero_GetUserData:
  "list_all level_zero w \<Longrightarrow> list_all level_zero (snd (GetUserData c w))"
  by (auto simp: GetUserData_def GetState_def PutState_def Let_def level_zero_update
        split: option.splits if_splits)

lemma level_zero_UpdateUserData:
  assumes "list_all level_zero w"
  shows "list_all level_zero (snd (UpdateUserData c w a b s d))"
proof (cases "client_id c")
  case None
  with assms show ?thesis by (simp add: UpdateUserData_def)
next
  case (Some p)
  show ?thesis
  proof (cases "get_err c (''UserData_'' @ p)")
    case True
    with Some assms show ?thesis by (simp add: UpdateUserData_def GetState_def)
  next
    case False
    show ?thesis
    proof (cases "map_of w (''UserData_'' @ p)")
      case None
      with Some False assms show ?thesis by (simp add: UpdateUserData_def GetState_def)
    next
      case b: (Some b)
      show ?thesis
      proof (cases "UnmarshalUser b")
        case None
        with Some False b assms show ?thesis by (simp add: UpdateUserData_def GetState_def)
      next
        case u: (Some u)
        have "user_UserLevel u = 0" using assms b u by (rule level_zero_Unmarshal)
        then have "level_zero (''UserData_'' @ p, UserJson (u\<lparr>user_UploadCount := a,
                         user_Points := b', user_Subscribed := s,
                         user_Balance := d\<rparr>))" for b' by simp
        with Some False b u assms show ?thesis
          using level_zero_PutState [of w "''UserData_'' @ p" _ c]
          by (simp add: UpdateUserData_def GetState_def)
      qed
    qed
  qed
qed

lemma level_zero_generateUniqueID:
  "list_all level_zero w \<Longrightarrow> list_all level_zero (snd (generateUniqueID c w pre))"
  by (auto simp: generateUniqueID_def GetState_def PutState_def Let_def level_zero_update
        split: option.splits sum.splits if_splits)

lemma level_zero_AddReviewData:
  assumes "list_all level_zero w"
  shows "list_all level_zero (snd (AddReviewData c w i a t co cs txt))"
proof -
  have g: "list_all level_zero (snd (generateUniqueID c w ''Review''))"
    using assms by (rule level_zero_generateUniqueID)
  show ?thesis
  proof (cases "generateUniqueID c w ''Review''")
    case (Pair r w1)
    with g have "list_all level_zero w1" by simp
    then have "list_all level_zero (snd (PutState c w1 k (ReviewJson rv)))" for k rv
      by (rule level_zero_PutState) simp
    with Pair assms \<open>list_all level_zero w1\<close> show ?thesis
      by (auto simp: AddReviewData_def GetState_def Let_def split: option.splits sum.splits)
  qed
qed

lemma level_zero_Filtered:
  "list_all level_zero w \<Longrightarrow>
   list_all level_zero (snd (GetCTIItemsFilteredBySubscriptionLevel c w))"
  using level_zero_GetUserData [of w c]
  by (auto simp: GetCTIItemsFilteredBySubscriptionLevel_def split: sum.splits prod.splits)

lemma level_zero_Delete:
  "list_all level_zero w \<Longrightarrow> list_all level_zero (snd (DeleteCTIItemByID c w i))"
  by (auto simp: DeleteCTIItemByID_def GetState_def DelState_def level_zero_delete
        split: option.splits)

lemma level_zero_exec: "list_all level_zero w \<Longrightarrow> list_all level_zero (exec t w)"
proof -
  assume w: "list_all level_zero w"
  obtain c op where t: "t = (c, op)" by (cases t)
  show ?thesis unfolding t using w
    by (cases op)
       (simp_all add: level_zero_AddCTIItem level_zero_UpdateCTIItem level_zero_AddUserData
          level_zero_GetUserData level_zero_UpdateUserData level_zero_AddReviewData
          level_zero_Filtered level_zero_Delete)
qed

lemma level_zero_run: "list_all level_zero w \<Longrightarrow> list_all level_zero (run ts w)"
  by (induction ts arbitrary: w) (simp_all add: level_zero_exec)

lemma run_append: "run (ts @ us) w = run us (run ts w)"
  by (induction ts arbitrary: w) simp_all

section \<open>Operations on absent items\<close>

text \<open>
  C5. \<open>UpdateCTIItem\<close> and \<open>AddReviewData\<close>, called with an id under which no item is
  stored, return an error and leave the ledger as it was: nothing is written, no review
  is stored and no counter is advanced. The error is \<open>NotFound\<close> whenever the caller's
  identity resolves and the read of the item key does not fail (either failure is
  reported first, as its own error).
\<close>

theorem C5_absent_item_NotFound_no_write:
  assumes "map_of w (''CTI_'' @ i) = None"
  shows "snd (UpdateCTIItem c w i name timestamp cid encryptKey points level) = w
       \<and> fst (UpdateCTIItem c w i name timestamp cid encryptKey points level) \<noteq> None
       \<and> snd (AddReviewData c w i accuracy timeliness completeness consistency reviewText) = w
       \<and> fst (AddReviewData c w i accuracy timeliness completeness consistency reviewText) \<noteq> None
       \<and> (client_id c \<noteq> None \<and> \<not> get_err c (''CTI_'' @ i) \<longrightarrow>
            UpdateCTIItem c w i name timestamp cid encryptKey points level = (Some NotFound, w)
          \<and> AddReviewData c w i accuracy timeliness completeness consistency reviewText
              = (Some NotFound, w))"
  using assms
  by (auto simp: UpdateCTIItem_def AddReviewData_def GetState_def split: option.splits)

theorem C5_witness:
  "UpdateCTIItem (ok_ctx ''bob'') [(''CTI_1'', CTIJson zeroCTI), (''latestID'', Text ''1'')]
      ''2'' ''n'' 1 ''c'' ''k'' 2 3
     = (Some NotFound, [(''CTI_1'', CTIJson zeroCTI), (''latestID'', Text ''1'')])
   \<and> AddReviewData (ok_ctx ''bob'') [(''CTI_1'', CTIJson zeroCTI), (''latestID'', Text ''1'')]
      ''2'' 1 2 3 4 ''good''
     = (Some NotFound, [(''CTI_1'', CTIJson zeroCTI), (''latestID'', Text ''1'')])"
  using C5_absent_item_NotFound_no_write
     [of "[(''CTI_1'', CTIJson zeroCTI), (''latestID'', Text ''1'')]"
       "''2''" "ok_ctx ''bob''" "''n''" 1 "''c''" "''k''" 2 3 1 2 3 4 "''good''"]
  by (simp add: ok_ctx_def)

section \<open>Accounts\<close>

text \<open>
  C7. For a caller with no stored account, whose identity resolves and whose account
  key can be read and written, \<open>GetUserData\<close> stores the zero-valued record of that
  identity and returns it; the record is then in the ledger (a direct read and
  \<open>GetUserDataOld\<close> find it), and a second \<open>GetUserData\<close> right after the first returns
  the same record and leaves the ledger as the first call left it.
\<close>

theorem C7_first_read_creates_zero_account:
  assumes "client_id c = Some p"
    and "\<not> get_err c (''UserData_'' @ p)" and "\<not> put_err c (''UserData_'' @ p)"
    and "map_of w (''UserData_'' @ p) = None"
    and "z = \<lparr>user_ID = p, user_UserLevel = 0, user_UploadCount = 0, user_Points = 0,
               user_Subscribed = 0, user_Balance = 0\<rparr>"
    and "w1 = AList.update (''UserData_'' @ p) (UserJson z) w"
  shows "GetUserData c w = (Inr z, w1)
       \<and> map_of w1 (''UserData_'' @ p) = Some (UserJson z)
       \<and> GetUserDataOld c w1 p = Inr z
       \<and> GetUserData c w1 = (Inr z, w1)"
  using assms
  by (simp add: GetUserData_def GetUserDataOld_def GetState_def PutState_def update_conv'
        Let_def)

theorem C7_witness:
  "GetUserData (ok_ctx ''alice'') [(''latestID'', Text ''1'')]
     = (Inr \<lparr>user_ID = ''alice'', user_UserLevel = 0, user_UploadCount = 0, user_Points = 0,
               user_Subscribed = 0, user_Balance = 0\<rparr>,
        [(''latestID'', Text ''1''),
         (''UserData_alice'', UserJson \<lparr>user_ID = ''alice'', user_UserLevel = 0,
            user_UploadCount = 0, user_Points = 0, user_Subscribed = 0, user_Balance = 0\<rparr>)])
   \<and> GetUserData (ok_ctx ''alice'')
        [(''latestID'', Text ''1''),
         (''UserData_alice'', UserJson \<lparr>user_ID = ''alice'', user_UserLevel = 0,
            user_UploadCount = 0, user_Points = 0, user_Subscribed = 0, user_Balance = 0\<rparr>)]
     = (Inr \<lparr>user_ID = ''alice'', user_UserLevel = 0, user_UploadCount = 0, user_Points = 0,
               user_Subscribed = 0, user_Balance = 0\<rparr>,
        [(''latestID'', Text ''1''),
         (''UserData_alice'', UserJson \<lparr>user_ID = ''alice'', user_UserLevel = 0,
            user_UploadCount = 0, user_Points = 0, user_Subscribed = 0, user_Balance = 0\<rparr>)])"
  using C7_first_read_creates_zero_account
     [of "ok_ctx ''alice''" "''alice''" "[(''latestID'', Text ''1'')]"
       "\<lparr>user_ID = ''alice'', user_UserLevel = 0, user_UploadCount = 0, user_Points = 0,
               user_Subscribed = 0, user_Balance = 0\<rparr>"
       "[(''latestID'', Text ''1''),
         (''UserData_alice'', UserJson \<lparr>user_ID = ''alice'', user_UserLevel = 0,
            user_UploadCount = 0, user_Points = 0, user_Subscribed = 0, user_Balance = 0\<rparr>)]"]
  by (simp add: ok_ctx_def)

section \<open>Deleting an item\<close>



section \<open>The field \<open>UserLevel\<close>\<close>

text \<open>
  C10. The stored account record has a field \<open>UserLevel\<close>. For every stored account
  record, a successful \<open>UpdateUserData\<close> stores the record with the same \<open>ID\<close> and the
  same \<open>UserLevel\<close> and with \<open>UploadCount\<close>, \<open>Points\<close>, \<open>Subscribed\<close> and \<open>Balance\<close>
  replaced by the arguments: a merge into the stored record. \<open>AddUserData\<close> and the
  creating branch of \<open>GetUserData\<close> store \<open>UserLevel\<close> zero. In every ledger that
  transactions of this contract build from the empty ledger, every stored account has
  \<open>UserLevel\<close> zero, so no transaction changes the \<open>UserLevel\<close> of a stored account.
\<close>

theorem C10_UserLevel_never_changes:
  "(client_id c = Some p \<and> map_of w (''UserData_'' @ p) = Some (UserJson u)
      \<and> UpdateUserData c w uploadCount points subscribed balance = (None, w1)
    \<longrightarrow> map_of w1 (''UserData_'' @ p)
          = Some (UserJson \<lparr>user_ID = user_ID u, user_UserLevel = user_UserLevel u,
               user_UploadCount = uploadCount, user_Points = points,
               user_Subscribed = subscribed, user_Balance = balance\<rparr>))
   \<and> (client_id c = Some p
      \<and> AddUserData c w uploadCount points subscribed balance = (None, w2)
    \<longrightarrow> map_of w2 (''UserData_'' @ p)
          = Some (UserJson \<lparr>user_ID = p, user_UserLevel = 0,
               user_UploadCount = uploadCount, user_Points = points,
               user_Subscribed = subscribed, user_Balance = balance\<rparr>))
   \<and> (client_id c = Some p \<and> map_of w (''UserData_'' @ p) = None
      \<and> GetUserData c w = (Inr z, w3)
    \<longrightarrow> user_UserLevel z = 0 \<and> map_of w3 (''UserData_'' @ p) = Some (UserJson z))
   \<and> (map_of (run ts []) k = Some (UserJson v) \<longrightarrow> user_UserLevel v = 0)
   \<and> (map_of (run ts []) k = Some (UserJson v)
      \<and> map_of (exec t (run ts [])) k = Some (UserJson v')
    \<longrightarrow> user_UserLevel v' = user_UserLevel v)"
proof -
  have inv: "list_all level_zero (run ts' [])" for ts'
    by (rule level_zero_run) simp
  have zero: "user_UserLevel x = 0" if "map_of (run ts' []) k = Some (UserJson x)" for ts' x
    using level_zero_lookup [OF inv that] by simp
  have step: "exec t (run ts []) = run (ts @ [t]) []"
    by (simp add: run_append)
  have A: "client_id c = Some p \<and> map_of w (''UserData_'' @ p) = Some (UserJson u)
      \<and> UpdateUserData c w uploadCount points subscribed balance = (None, w1)
    \<longrightarrow> map_of w1 (''UserData_'' @ p)
          = Some (UserJson \<lparr>user_ID = user_ID u, user_UserLevel = user_UserLevel u,
               user_UploadCount = uploadCount, user_Points = points,
               user_Subscribed = subscribed, user_Balance = balance\<rparr>)"
    by (auto simp: UpdateUserData_def GetState_def PutState_def update_conv'
          split: if_splits)
  have B: "client_id c = Some p
      \<and> AddUserData c w uploadCount points subscribed balance = (None, w2)
    \<longrightarrow> map_of w2 (''UserData_'' @ p)
          = Some (UserJson \<lparr>user_ID = p, user_UserLevel = 0,
               user_UploadCount = uploadCount, user_Points = points,
               user_Subscribed = subscribed, user_Balance = balance\<rparr>)"
    by (auto simp: AddUserData_def PutState_def update_conv' Let_def split: if_splits)
  have C: "client_id c = Some p \<and> map_of w (''UserData_'' @ p) = None
      \<and> GetUserData c w = (Inr z, w3)
    \<longrightarrow> user_UserLevel z = 0 \<and> map_of w3 (''UserData_'' @ p) = Some (UserJson z)"
    by (auto simp: GetUserData_def GetState_def PutState_def update_conv' Let_def
          split: if_splits)
  have D: "map_of (run ts []) k = Some (UserJson v) \<longrightarrow> user_UserLevel v = 0"
    using zero by blast
  have E: "map_of (run ts []) k = Some (UserJson v)
      \<and> map_of (exec t (run ts [])) k = Some (UserJson v')
    \<longrightarrow> user_UserLevel v' = user_UserLevel v"
    using zero [of ts v] zero [of "ts @ [t]" v'] step by auto
  from A B C D E show ?thesis by blast
qed


theorem C10_witness:
  "UpdateUserData (ok_ctx ''alice'')
       [(''UserData_alice'', UserJson \<lparr>user_ID = ''alice'', user_UserLevel = 0,
           user_UploadCount = 0, user_Points = 0, user_Subscribed = 0, user_Balance = 0\<rparr>)]
       1 2 3 4
     = (None, [(''UserData_alice'', UserJson \<lparr>user_ID = ''alice'', user_UserLevel = 0,
           user_UploadCount = 1, user_Points = 2, user_Subscribed = 3, user_Balance = 4\<rparr>)])
   \<and> run [(ok_ctx ''alice'', OpGetUserData)] []
     = [(''UserData_alice'', UserJson \<lparr>user_ID = ''alice'', user_UserLevel = 0,
           user_UploadCount = 0, user_Points = 0, user_Subscribed = 0, user_Balance = 0\<rparr>)]
   \<and> exec (ok_ctx ''alice'', OpUpdateUserData 1 2 3 4) (run [(ok_ctx ''alice'', OpGetUserData)] [])
     = [(''UserData_alice'', UserJson \<lparr>user_ID = ''alice'', user_UserLevel = 0,
           user_UploadCount = 1, user_Points = 2, user_Subscribed = 3, user_Balance = 4\<rparr>)]
   \<and> user_UserLevel \<lparr>user_ID = ''alice'', user_UserLevel = 0,
           user_UploadCount = 1, user_Points = 2, user_Subscribed = 3, user_Balance = 4\<rparr>
     = user_UserLevel \<lparr>user_ID = ''alice'', user_UserLevel = 0,
           user_UploadCount = 0, user_Points = 0, user_Subscribed = 0, user_Balance = 0\<rparr>"
  using C10_UserLevel_never_changes [of "ok_ctx ''alice''" "''alice''"
     "[(''UserData_alice'', UserJson \<lparr>user_ID = ''alice'', user_UserLevel = 0,
           user_UploadCount = 0, user_Points = 0, user_Subscribed = 0, user_Balance = 0\<rparr>)]"
     "\<lparr>user_ID = ''alice'', user_UserLevel = 0,
           user_UploadCount = 0, user_Points = 0, user_Subscribed = 0, user_Balance = 0\<rparr>"
     1 2 3 4
     "[(''UserData_alice'', UserJson \<lparr>user_ID = ''alice'', user_UserLevel = 0,
           user_UploadCount = 1, user_Points = 2, user_Subscribed = 3, user_Balance = 4\<rparr>)]"
     "[(''UserData_alice'', UserJson \<lparr>user_ID = ''alice'', user_UserLevel = 0,
           user_UploadCount = 1, user_Points = 2, user_Subscribed = 3, user_Balance = 4\<rparr>)]"
     "\<lparr>user_ID = ''alice'', user_UserLevel = 0,
           user_UploadCount = 0, user_Points = 0, user_Subscribed = 0, user_Balance = 0\<rparr>"
     "[(''UserData_alice'', UserJson \<lparr>user_ID = ''alice'', user_UserLevel = 0,
           user_UploadCount = 0, user_Points = 0, user_Subscribed = 0, user_Balance = 0\<rparr>)]"
     "[(ok_ctx ''alice'', OpGetUserData)]" "''UserData_alice''"
     "\<lparr>user_ID = ''alice'', user_UserLevel = 0,
           user_UploadCount = 0, user_Points = 0, user_Subscribed = 0, user_Balance = 0\<rparr>"
     "(ok_ctx ''alice'', OpUpdateUserData 1 2 3 4)"
     "\<lparr>user_ID = ''alice'', user_UserLevel = 0,
           user_UploadCount = 1, user_Points = 2, user_Subscribed = 3, user_Balance = 4\<rparr>"]
  by (simp add: chaincode_defs stub_defs)

section \<open>Updating an account\<close>

text \<open>
  Every transaction of the contract keeps the account entries of the ledger well formed:
  an account key \<open>UserData_p\<close> holds the record of \<open>p\<close>, with \<open>UserLevel\<close> zero.
\<close>

lemma account_entry_update:
  "list_all account_entry w \<Longrightarrow> account_entry (k, v) \<Longrightarrow>
   list_all account_entry (AList.update k v w)"
  by (induction w) auto

lemma account_entry_delete:
  "list_all account_entry w \<Longrightarrow> list_all account_entry (AList.delete k w)"
  by (induction w) auto

lemma account_entry_PutState:
  "list_all account_entry w \<Longrightarrow> account_entry (k, v) \<Longrightarrow>
   list_all account_entry (snd (PutState c w k v))"
  by (simp add: PutState_def account_entry_update)

lemma account_entry_lookup:
  assumes "list_all account_entry w" and "map_of w (''UserData_'' @ p) = Some b"
  shows "\<exists>u. b = UserJson u \<and> user_ID u = p \<and> user_UserLevel u = 0"
proof -
  have "account_entry (''UserData_'' @ p, b)"
    using assms by (auto simp: list_all_iff dest: map_of_SomeD)
  then show ?thesis by (cases b) simp_all
qed

lemma account_entry_AddCTIItem:
  "list_all account_entry w \<Longrightarrow> list_all account_entry (snd (AddCTIItem c w n t ci e p l))"
  by (auto simp: AddCTIItem_def GetState_def PutState_def Let_def account_entry_update
        split: option.splits sum.splits if_splits prod.splits)

lemma account_entry_UpdateCTIItem:
  "list_all account_entry w \<Longrightarrow> list_all account_entry (snd (UpdateCTIItem c w i n t ci e p l))"
  by (auto simp: UpdateCTIItem_def GetState_def PutState_def Let_def account_entry_update
        split: option.splits if_splits)

lemma account_entry_AddUserData:
  "list_all account_entry w \<Longrightarrow> list_all account_entry (snd (AddUserData c w a b s d))"
  by (auto simp: AddUserData_def PutState_def Let_def account_entry_update
        split: option.splits if_splits)

lemma account_entry_GetUserData:
  "list_all account_entry w \<Longrightarrow> list_all account_entry (snd (GetUserData c w))"
  by (auto simp: GetUserData_def GetState_def PutState_def Let_def account_entry_update
        split: option.splits if_splits)

lemma account_entry_UpdateUserData:
  assumes "list_all account_entry w"
  shows "list_all account_entry (snd (UpdateUserData c w a b s d))"
proof (cases "client_id c")
  case None
  with assms show ?thesis by (simp add: UpdateUserData_def)
next
  case (Some p)
  show ?thesis
  proof (cases "map_of w (''UserData_'' @ p)")
    case None
    with Some assms show ?thesis by (simp add: UpdateUserData_def GetState_def)
  next
    case b: (Some b)
    from account_entry_lookup [OF assms b] obtain u
      where u: "b = UserJson u" "user_ID u = p" "user_UserLevel u = 0" by blast
    then have "account_entry (''UserData_'' @ p, UserJson (u\<lparr>user_UploadCount := a,
                 user_Points := b', user_Subscribed := s, user_Balance := d\<rparr>))" for b'
      by simp
    with Some b u assms show ?thesis
      by (simp add: UpdateUserData_def GetState_def PutState_def account_entry_update)
  qed
qed

lemma account_entry_generateUniqueID:
  "list_all account_entry w \<Longrightarrow> list_all account_entry (snd (generateUniqueID c w ''Review''))"
  by (auto simp: generateUniqueID_def GetState_def PutState_def Let_def account_entry_update
        split: option.splits sum.splits if_splits)

lemma account_entry_AddReviewData:
  assumes "list_all account_entry w"
  shows "list_all account_entry (snd (AddReviewData c w i a t co cs txt))"
proof -
  have g: "list_all account_entry (snd (generateUniqueID c w ''Review''))"
    using assms by (rule account_entry_generateUniqueID)
  show ?thesis
  proof (cases "generateUniqueID c w ''Review''")
    case (Pair r w1)
    with g have w1: "list_all account_entry w1" by simp
    have "list_all account_entry (snd (PutState c w1 (''Review_'' @ x) (ReviewJson rv)))" for x rv
      using w1 by (rule account_entry_PutState) simp
    with Pair assms w1 show ?thesis
      by (auto simp: AddReviewData_def GetState_def Let_def split: option.splits sum.splits)
  qed
qed

lemma account_entry_Filtered:
  "list_all account_entry w \<Longrightarrow>
   list_all account_entry (snd (GetCTIItemsFilteredBySubscriptionLevel c w))"
  using account_entry_GetUserData [of w c]
  by (auto simp: GetCTIItemsFilteredBySubscriptionLevel_def split: sum.splits prod.splits)

lemma account_entry_Delete:
  "list_all account_entry w \<Longrightarrow> list_all account_entry (snd (DeleteCTIItemByID c w i))"
  by (auto simp: DeleteCTIItemByID_def GetState_def DelState_def account_entry_delete
        split: option.splits)

lemma account_entry_exec: "list_all account_entry w \<Longrightarrow> list_all account_entry (exec t w)"
proof -
  assume w: "list_all account_entry w"
  obtain c op where t: "t = (c, op)" by (cases t)
  show ?thesis unfolding t using w
    by (cases op)
       (simp_all add: account_entry_AddCTIItem account_entry_UpdateCTIItem
          account_entry_AddUserData account_entry_GetUserData account_entry_UpdateUserData
          account_entry_AddReviewData account_entry_Filtered account_entry_Delete)
qed

lemma account_entry_run: "list_all account_entry w \<Longrightarrow> list_all account_entry (run ts w)"
  by (induction ts arbitrary: w) (simp_all add: account_entry_exec)

text \<open>
  On a ledger that holds well-formed account entries, an update of a stored account stores
  what \<open>AddUserData\<close> stores: the record built from the identity and the arguments.
\<close>

lemma UpdateUserData_overwrites:
  assumes "list_all account_entry w" and "client_id c = Some p"
    and "\<not> get_err c (''UserData_'' @ p)" and "map_of w (''UserData_'' @ p) = Some b"
  shows "UpdateUserData c w a b' s d = AddUserData c w a b' s d"
proof -
  from account_entry_lookup [OF assms(1,4)] obtain u
    where u: "b = UserJson u" "user_ID u = p" "user_UserLevel u = 0" by blast
  have "u\<lparr>user_UploadCount := a, user_Points := b', user_Subscribed := s, user_Balance := d\<rparr>
        = \<lparr>user_ID = p, user_UserLevel = 0, user_UploadCount = a, user_Points = b',
             user_Subscribed = s, user_Balance = d\<rparr>"
    using u(2,3) by (cases u) simp
  with assms u(1) show ?thesis
    by (simp add: UpdateUserData_def AddUserData_def GetState_def Let_def)
qed

text \<open>
  C6. For a caller whose identity resolves and whose account key can be read:
  with no stored account \<open>UpdateUserData\<close> returns \<open>NotFound\<close> and leaves the ledger as
  it was, so it creates no account; with a stored account record (and a key that can be
  written) it succeeds, and the stored record then has \<open>UploadCount\<close>, \<open>Points\<close>,
  \<open>Subscribed\<close> and \<open>Balance\<close> equal to the arguments and the \<open>ID\<close> it had. On every
  ledger that transactions of the contract build from the empty ledger, the update of a
  stored account does what \<open>AddUserData\<close> does: the record stored afterwards is the one
  built from the caller's identity and the four arguments alone, so no value of the
  four fields, and nothing else of the old record, is merged into it.
\<close>

theorem C6_UpdateUserData_overwrites:
  assumes "client_id c = Some p" and "\<not> get_err c (''UserData_'' @ p)"
  shows "(map_of w (''UserData_'' @ p) = None \<longrightarrow>
            UpdateUserData c w uploadCount points subscribed balance = (Some NotFound, w))
       \<and> (map_of w (''UserData_'' @ p) = Some (UserJson u) \<and> \<not> put_err c (''UserData_'' @ p) \<longrightarrow>
            UpdateUserData c w uploadCount points subscribed balance
              = (None, AList.update (''UserData_'' @ p)
                   (UserJson \<lparr>user_ID = user_ID u, user_UserLevel = user_UserLevel u,
                      user_UploadCount = uploadCount, user_Points = points,
                      user_Subscribed = subscribed, user_Balance = balance\<rparr>) w))
       \<and> (map_of (run ts []) (''UserData_'' @ p) \<noteq> None \<longrightarrow>
            UpdateUserData c (run ts []) uploadCount points subscribed balance
              = AddUserData c (run ts []) uploadCount points subscribed balance)
       \<and> (map_of (run ts []) (''UserData_'' @ p) \<noteq> None \<and> \<not> put_err c (''UserData_'' @ p) \<longrightarrow>
            UpdateUserData c (run ts []) uploadCount points subscribed balance
              = (None, AList.update (''UserData_'' @ p)
                   (UserJson \<lparr>user_ID = p, user_UserLevel = 0,
                      user_UploadCount = uploadCount, user_Points = points,
                      user_Subscribed = subscribed, user_Balance = balance\<rparr>) (run ts [])))"
proof -
  have absent: "map_of w (''UserData_'' @ p) = None \<longrightarrow>
            UpdateUserData c w uploadCount points subscribed balance = (Some NotFound, w)"
    using assms by (simp add: UpdateUserData_def GetState_def)
  have present: "map_of w (''UserData_'' @ p) = Some (UserJson u) \<and> \<not> put_err c (''UserData_'' @ p) \<longrightarrow>
            UpdateUserData c w uploadCount points subscribed balance
              = (None, AList.update (''UserData_'' @ p)
                   (UserJson \<lparr>user_ID = user_ID u, user_UserLevel = user_UserLevel u,
                      user_UploadCount = uploadCount, user_Points = points,
                      user_Subscribed = subscribed, user_Balance = balance\<rparr>) w)"
    using assms by (cases u) (simp add: UpdateUserData_def GetState_def PutState_def)
  have inv: "list_all account_entry (run ts [])"
    by (rule account_entry_run) simp
  have same: "UpdateUserData c (run ts []) uploadCount points subscribed balance
              = AddUserData c (run ts []) uploadCount points subscribed balance"
    if "map_of (run ts []) (''UserData_'' @ p) \<noteq> None"
  proof -
    from that obtain b where "map_of (run ts []) (''UserData_'' @ p) = Some b" by blast
    with inv assms show ?thesis by (rule UpdateUserData_overwrites)
  qed
  have built: "UpdateUserData c (run ts []) uploadCount points subscribed balance
              = (None, AList.update (''UserData_'' @ p)
                   (UserJson \<lparr>user_ID = p, user_UserLevel = 0,
                      user_UploadCount = uploadCount, user_Points = points,
                      user_Subscribed = subscribed, user_Balance = balance\<rparr>) (run ts []))"
    if "map_of (run ts []) (''UserData_'' @ p) \<noteq> None" and "\<not> put_err c (''UserData_'' @ p)"
    using same [OF that(1)] that(2) assms(1)
    by (simp add: AddUserData_def PutState_def Let_def)
  from absent present same built show ?thesis by blast
qed

theorem C6_witness:
  "UpdateUserData (ok_ctx ''alice'') [] 10 20 30 40 = (Some NotFound, [])
   \<and> run [(ok_ctx ''alice'', OpAddUserData 1 2 3 4)] []
       = [(''UserData_alice'', UserJson \<lparr>user_ID = ''alice'', user_UserLevel = 0,
             user_UploadCount = 1, user_Points = 2, user_Subscribed = 3, user_Balance = 4\<rparr>)]
   \<and> UpdateUserData (ok_ctx ''alice'') (run [(ok_ctx ''alice'', OpAddUserData 1 2 3 4)] [])
         10 20 30 40
       = (None, [(''UserData_alice'', UserJson \<lparr>user_ID = ''alice'', user_UserLevel = 0,
             user_UploadCount = 10, user_Points = 20, user_Subscribed = 30,
             user_Balance = 40\<rparr>)])
   \<and> AddUserData (ok_ctx ''alice'') (run [(ok_ctx ''alice'', OpAddUserData 1 2 3 4)] [])
         10 20 30 40
       = (None, [(''UserData_alice'', UserJson \<lparr>user_ID = ''alice'', user_UserLevel = 0,
             user_UploadCount = 10, user_Points = 20, user_Subscribed = 30,
             user_Balance = 40\<rparr>)])"
  using C6_UpdateUserData_overwrites [of "ok_ctx ''alice''" "''alice''" "[]" 10 20 30 40
      "\<lparr>user_ID = ''alice'', user_UserLevel = 0,
             user_UploadCount = 1, user_Points = 2, user_Subscribed = 3, user_Balance = 4\<rparr>"
      "[(ok_ctx ''alice'', OpAddUserData 1 2 3 4)]"]
  by (simp add: chaincode_defs stub_defs)

section \<open>What the creating operations return\<close>

text \<open>
  C2, as the specification states it, has \<open>AddCTIItem\<close> and \<open>AddReviewData\<close> return the
  new ID next to the error. Both Go functions have the single result \<open>error\<close>. Two
  successful calls of either return the same value, \<open>nil\<close>, although the first
  allocates 1 and the second 2: the caller is not given the ID.
\<close>

theorem C2_counterexample:
  "AddCTIItem (ok_ctx ''bob'') [] ''n'' 1 ''c'' ''k'' 2 3
     = (None,
        [(''CTI_1'', CTIJson \<lparr>cti_ID = ''1'', cti_Name = ''n'', cti_Uploader = ''bob'',
            cti_Timestamp = 1, cti_CID = ''c'', cti_EncryptKey = ''k'', cti_Points = 2,
            cti_Level = 3\<rparr>),
         (''latestID'', Text ''1'')])
   \<and> AddCTIItem (ok_ctx ''bob'')
        [(''CTI_1'', CTIJson \<lparr>cti_ID = ''1'', cti_Name = ''n'', cti_Uploader = ''bob'',
            cti_Timestamp = 1, cti_CID = ''c'', cti_EncryptKey = ''k'', cti_Points = 2,
            cti_Level = 3\<rparr>),
         (''latestID'', Text ''1'')] ''n'' 1 ''c'' ''k'' 2 3
     = (None,
        [(''CTI_1'', CTIJson \<lparr>cti_ID = ''1'', cti_Name = ''n'', cti_Uploader = ''bob'',
            cti_Timestamp = 1, cti_CID = ''c'', cti_EncryptKey = ''k'', cti_Points = 2,
            cti_Level = 3\<rparr>),
         (''latestID'', Text ''2''),
         (''CTI_2'', CTIJson \<lparr>cti_ID = ''2'', cti_Name = ''n'', cti_Uploader = ''bob'',
            cti_Timestamp = 1, cti_CID = ''c'', cti_EncryptKey = ''k'', cti_Points = 2,
            cti_Level = 3\<rparr>)])
   \<and> AddReviewData (ok_ctx ''bob'') [(''CTI_1'', CTIJson zeroCTI)] ''1'' 1 2 3 4 ''t''
     = (None,
        [(''CTI_1'', CTIJson zeroCTI), (''latestID_Review'', Text ''1''),
         (''Review_Review_1'', ReviewJson \<lparr>review_ID = ''Review_1'',
            review_UserDataID = ''bob'', review_CTIDataID = ''1'', review_Accuracy = 1,
            review_Timeliness = 2, review_Completeness = 3, review_Consistency = 4,
            review_ReviewText = ''t''\<rparr>)])
   \<and> AddReviewData (ok_ctx ''bob'')
        [(''CTI_1'', CTIJson zeroCTI), (''latestID_Review'', Text ''1''),
         (''Review_Review_1'', ReviewJson \<lparr>review_ID = ''Review_1'',
            review_UserDataID = ''bob'', review_CTIDataID = ''1'', review_Accuracy = 1,
            review_Timeliness = 2, review_Completeness = 3, review_Consistency = 4,
            review_ReviewText = ''t''\<rparr>)] ''1'' 1 2 3 4 ''t''
     = (None,
        [(''CTI_1'', CTIJson zeroCTI), (''latestID_Review'', Text ''2''),
         (''Review_Review_1'', ReviewJson \<lparr>review_ID = ''Review_1'',
            review_UserDataID = ''bob'', review_CTIDataID = ''1'', review_Accuracy = 1,
            review_Timeliness = 2, review_Completeness = 3, review_Consistency = 4,
            review_ReviewText = ''t''\<rparr>),
         (''Review_Review_2'', ReviewJson \<lparr>review_ID = ''Review_2'',
            review_UserDataID = ''bob'', review_CTIDataID = ''1'', review_Accuracy = 1,
            review_Timeliness = 2, review_Completeness = 3, review_Consistency = 4,
            review_ReviewText = ''t''\<rparr>)])"
  by (simp add: chaincode_defs stub_defs num_defs)

text \<open>
  C2, amended. \<open>AddCTIItem\<close> and \<open>AddReviewData\<close> return the error result only. After
  a successful call the new ID is in the ledger: for some number \<open>n\<close> the counter key
  (\<open>latestID\<close>, \<open>latestID_Review\<close>) holds the decimal of \<open>n\<close>, and the new record, built
  from the arguments and the caller's identity, is stored under \<open>CTI_n\<close> with ID \<open>n\<close>,
  respectively under \<open>Review_Review_n\<close> with ID \<open>Review_n\<close>.
\<close>

theorem C2_new_id_is_stored_not_returned:
  "(AddCTIItem c w name timestamp cid encryptKey points level = (None, w1) \<longrightarrow>
      (\<exists>n u. client_id c = Some u
         \<and> map_of w1 ''latestID'' = Some (Text (Itoa n))
         \<and> map_of w1 (''CTI_'' @ Itoa n)
             = Some (CTIJson \<lparr>cti_ID = Itoa n, cti_Name = name, cti_Uploader = u,
                  cti_Timestamp = timestamp, cti_CID = cid, cti_EncryptKey = encryptKey,
                  cti_Points = points, cti_Level = level\<rparr>)))
   \<and> (AddReviewData c w ctiDataID accuracy timeliness completeness consistency reviewText
        = (None, w2) \<longrightarrow>
      (\<exists>n u. client_id c = Some u
         \<and> map_of w2 ''latestID_Review'' = Some (Text (Itoa n))
         \<and> map_of w2 (''Review_Review_'' @ Itoa n)
             = Some (ReviewJson \<lparr>review_ID = ''Review_'' @ Itoa n, review_UserDataID = u,
                  review_CTIDataID = ctiDataID, review_Accuracy = accuracy,
                  review_Timeliness = timeliness, review_Completeness = completeness,
                  review_Consistency = consistency, review_ReviewText = reviewText\<rparr>)))"
proof -
  have A: "AddCTIItem c w name timestamp cid encryptKey points level = (None, w1) \<longrightarrow>
      (\<exists>n u. client_id c = Some u
         \<and> map_of w1 ''latestID'' = Some (Text (Itoa n))
         \<and> map_of w1 (''CTI_'' @ Itoa n)
             = Some (CTIJson \<lparr>cti_ID = Itoa n, cti_Name = name, cti_Uploader = u,
                  cti_Timestamp = timestamp, cti_CID = cid, cti_EncryptKey = encryptKey,
                  cti_Points = points, cti_Level = level\<rparr>))"
    by (auto simp: AddCTIItem_def GetState_def PutState_def Let_def update_conv'
          split: option.splits sum.splits if_splits)
  have B: "AddReviewData c w ctiDataID accuracy timeliness completeness consistency reviewText
        = (None, w2) \<longrightarrow>
      (\<exists>n u. client_id c = Some u
         \<and> map_of w2 ''latestID_Review'' = Some (Text (Itoa n))
         \<and> map_of w2 (''Review_Review_'' @ Itoa n)
             = Some (ReviewJson \<lparr>review_ID = ''Review_'' @ Itoa n, review_UserDataID = u,
                  review_CTIDataID = ctiDataID, review_Accuracy = accuracy,
                  review_Timeliness = timeliness, review_Completeness = completeness,
                  review_Consistency = consistency, review_ReviewText = reviewText\<rparr>))"
    by (auto simp: AddReviewData_def generateUniqueID_def GetState_def PutState_def Let_def
          update_conv' split: option.splits sum.splits if_splits)
  from A B show ?thesis by blast
qed

theorem C2_witness:
  "AddCTIItem (ok_ctx ''bob'') [] ''n'' 1 ''c'' ''k'' 2 3
     = (None,
        [(''CTI_1'', CTIJson \<lparr>cti_ID = ''1'', cti_Name = ''n'', cti_Uploader = ''bob'',
            cti_Timestamp = 1, cti_CID = ''c'', cti_EncryptKey = ''k'', cti_Points = 2,
            cti_Level = 3\<rparr>),
         (''latestID'', Text ''1'')])
   \<and> (\<exists>n u. client_id (ok_ctx ''bob'') = Some u
         \<and> map_of [(''CTI_1'', CTIJson \<lparr>cti_ID = ''1'', cti_Name = ''n'',
                cti_Uploader = ''bob'', cti_Timestamp = 1, cti_CID = ''c'',
                cti_EncryptKey = ''k'', cti_Points = 2, cti_Level = 3\<rparr>),
              (''latestID'', Text ''1'')] ''latestID'' = Some (Text (Itoa n))
         \<and> map_of [(''CTI_1'', CTIJson \<lparr>cti_ID = ''1'', cti_Name = ''n'',
                cti_Uploader = ''bob'', cti_Timestamp = 1, cti_CID = ''c'',
                cti_EncryptKey = ''k'', cti_Points = 2, cti_Level = 3\<rparr>),
              (''latestID'', Text ''1'')] (''CTI_'' @ Itoa n)
             = Some (CTIJson \<lparr>cti_ID = Itoa n, cti_Name = ''n'', cti_Uploader = u,
                  cti_Timestamp = 1, cti_CID = ''c'', cti_EncryptKey = ''k'',
                  cti_Points = 2, cti_Level = 3\<rparr>))
   \<and> AddReviewData (ok_ctx ''bob'') [(''CTI_1'', CTIJson zeroCTI)] ''1'' 1 2 3 4 ''t''
     = (None,
        [(''CTI_1'', CTIJson zeroCTI), (''latestID_Review'', Text ''1''),
         (''Review_Review_1'', ReviewJson \<lparr>review_ID = ''Review_1'',
            review_UserDataID = ''bob'', review_CTIDataID = ''1'', review_Accuracy = 1,
            review_Timeliness = 2, review_Completeness = 3, review_Consistency = 4,
            review_ReviewText = ''t''\<rparr>)])"
proof -
  have run: "AddCTIItem (ok_ctx ''bob'') [] ''n'' 1 ''c'' ''k'' 2 3
     = (None,
        [(''CTI_1'', CTIJson \<lparr>cti_ID = ''1'', cti_Name = ''n'', cti_Uploader = ''bob'',
            cti_Timestamp = 1, cti_CID = ''c'', cti_EncryptKey = ''k'', cti_Points = 2,
            cti_Level = 3\<rparr>),
         (''latestID'', Text ''1'')])"
    by (simp add: chaincode_defs stub_defs num_defs)
  have rev: "AddReviewData (ok_ctx ''bob'') [(''CTI_1'', CTIJson zeroCTI)] ''1'' 1 2 3 4 ''t''
     = (None,
        [(''CTI_1'', CTIJson zeroCTI), (''latestID_Review'', Text ''1''),
         (''Review_Review_1'', ReviewJson \<lparr>review_ID = ''Review_1'',
            review_UserDataID = ''bob'', review_CTIDataID = ''1'', review_Accuracy = 1,
            review_Timeliness = 2, review_Completeness = 3, review_Consistency = 4,
            review_ReviewText = ''t''\<rparr>)])"
    by (simp add: chaincode_defs stub_defs num_defs)
  from run rev
    C2_new_id_is_stored_not_returned [of "ok_ctx ''bob''" "[]" "''n''" 1 "''c''" "''k''" 2 3
      "[(''CTI_1'', CTIJson \<lparr>cti_ID = ''1'', cti_Name = ''n'', cti_Uploader = ''bob'',
            cti_Timestamp = 1, cti_CID = ''c'', cti_EncryptKey = ''k'', cti_Points = 2,
            cti_Level = 3\<rparr>),
         (''latestID'', Text ''1'')]"]
  show ?thesis by blast
qed

section \<open>Listing items\<close>

text \<open>
  The key \<open>CTI_999999\<close> is the excluded end of the range that \<open>GetAllCTIItems\<close> scans:
  on every ledger the result is the same with and without the entry under that key.
\<close>

lemma GetAllCTIItems_ignores_999999:
  "GetAllCTIItems c (AList.delete ''CTI_999999'' w) = GetAllCTIItems c w"
  by (simp add: GetAllCTIItems_def GetStateByRange_delete)

text \<open>
  C3. \<open>GetAllCTIItems\<close> must return every stored item, for any ID the sequence can
  allocate. It scans the fixed range from \<open>CTI_0\<close> to \<open>CTI_999999\<close>, end excluded,
  in lexicographic key order. On a ledger whose counter stands at 999998, \<open>AddCTIItem\<close>
  allocates 999999 and stores the item under \<open>CTI_999999\<close>; \<open>GetCTIItem\<close> finds it
  there, and \<open>GetAllCTIItems\<close> returns the empty list.
\<close>

theorem C3_GetAllCTIItems_misses_item_999999:
  "AddCTIItem (ok_ctx ''bob'') [(''latestID'', Text ''999998'')] ''n'' 1 ''c'' ''k'' 2 0
     = (None,
        [(''latestID'', Text ''999999''),
         (''CTI_999999'', CTIJson \<lparr>cti_ID = ''999999'', cti_Name = ''n'',
            cti_Uploader = ''bob'', cti_Timestamp = 1, cti_CID = ''c'',
            cti_EncryptKey = ''k'', cti_Points = 2, cti_Level = 0\<rparr>)])
   \<and> GetCTIItem (ok_ctx ''bob'')
        [(''latestID'', Text ''999999''),
         (''CTI_999999'', CTIJson \<lparr>cti_ID = ''999999'', cti_Name = ''n'',
            cti_Uploader = ''bob'', cti_Timestamp = 1, cti_CID = ''c'',
            cti_EncryptKey = ''k'', cti_Points = 2, cti_Level = 0\<rparr>)] 999999
     = Inr \<lparr>cti_ID = ''999999'', cti_Name = ''n'', cti_Uploader = ''bob'',
            cti_Timestamp = 1, cti_CID = ''c'', cti_EncryptKey = ''k'', cti_Points = 2,
            cti_Level = 0\<rparr>
   \<and> GetAllCTIItems (ok_ctx ''bob'')
        [(''latestID'', Text ''999999''),
         (''CTI_999999'', CTIJson \<lparr>cti_ID = ''999999'', cti_Name = ''n'',
            cti_Uploader = ''bob'', cti_Timestamp = 1, cti_CID = ''c'',
            cti_EncryptKey = ''k'', cti_Points = 2, cti_Level = 0\<rparr>)]
     = Inr []"
  by (simp add: chaincode_defs stub_defs num_defs)

section \<open>Items visible to the caller\<close>

text \<open>
  What the query does with the list of \<open>GetAllCTIItems\<close>. Let \<open>GetAllCTIItems\<close> list
  \<open>items\<close> and let \<open>GetUserData\<close> return the account \<open>u\<close> and the world state \<open>w1\<close>.
  Then \<open>GetCTIItemsFilteredBySubscriptionLevel\<close> returns exactly the items of \<open>items\<close>,
  in their order, whose \<open>Level\<close> is at most \<open>Subscribed\<close> of \<open>u\<close>, and leaves \<open>w1\<close>. For
  a caller with no stored account, \<open>u\<close> is the zero record of the caller and \<open>w1\<close> holds
  it under the caller's account key. If the account key can be written,
  \<open>UpdateUserData\<close> on \<open>w1\<close> with the level \<open>subscribed\<close> succeeds, and the query on the
  world state it leaves returns exactly the items of \<open>items\<close> whose \<open>Level\<close> is at most
  \<open>subscribed\<close>.
\<close>

lemma filtered_is_filter_of_listing:
  assumes items: "GetAllCTIItems c w = Inr items"
    and acct: "GetUserData c w = (Inr u, w1)"
  shows "GetCTIItemsFilteredBySubscriptionLevel c w
           = (Inr (filter (\<lambda>ctiItem. cti_Level ctiItem \<le> user_Subscribed u) items), w1)
       \<and> (\<exists>p. client_id c = Some p
            \<and> (map_of w (''UserData_'' @ p) = None \<longrightarrow>
                  u = \<lparr>user_ID = p, user_UserLevel = 0, user_UploadCount = 0, user_Points = 0,
                        user_Subscribed = 0, user_Balance = 0\<rparr>
                \<and> map_of w1 (''UserData_'' @ p) = Some (UserJson u))
            \<and> (\<not> put_err c (''UserData_'' @ p) \<longrightarrow>
                  (\<exists>w2. UpdateUserData c w1 uploadCount points subscribed balance = (None, w2)
                     \<and> GetCTIItemsFilteredBySubscriptionLevel c w2
                         = (Inr (filter (\<lambda>ctiItem. cti_Level ctiItem \<le> subscribed) items),
                            w2))))"
proof -
  have first: "GetCTIItemsFilteredBySubscriptionLevel c w
           = (Inr (filter (\<lambda>ctiItem. cti_Level ctiItem \<le> user_Subscribed u) items), w1)"
    using items acct by (simp add: GetCTIItemsFilteredBySubscriptionLevel_def)
  from acct obtain p where p: "client_id c = Some p"
    by (cases "client_id c") (auto simp: GetUserData_def)
  let ?K = "''UserData_'' @ p"
  from acct p have get: "\<not> get_err c ?K"
    by (auto simp: GetUserData_def GetState_def split: if_splits)
  have created: "u = \<lparr>user_ID = p, user_UserLevel = 0, user_UploadCount = 0, user_Points = 0,
                        user_Subscribed = 0, user_Balance = 0\<rparr>
                \<and> map_of w1 ?K = Some (UserJson u)"
    if "map_of w ?K = None"
    using acct p get that
    by (auto simp: GetUserData_def GetState_def PutState_def Let_def update_conv'
          split: if_splits)
  have stored: "\<exists>b. map_of w1 ?K = Some b \<and> UnmarshalUser b = Some u"
    using acct p get
    by (auto simp: GetUserData_def GetState_def PutState_def Let_def update_conv'
          split: if_splits option.splits)
  have items1: "GetAllCTIItems c w1 = Inr items"
    using acct p get items
    by (auto simp: GetUserData_def GetState_def PutState_def Let_def
          GetAllCTIItems_update_user [simplified] split: if_splits option.splits)
  have raised: "\<exists>w2. UpdateUserData c w1 uploadCount points subscribed balance = (None, w2)
                     \<and> GetCTIItemsFilteredBySubscriptionLevel c w2
                         = (Inr (filter (\<lambda>ctiItem. cti_Level ctiItem \<le> subscribed) items),
                            w2)"
    if put: "\<not> put_err c ?K"
  proof -
    let ?u' = "u\<lparr>user_UploadCount := uploadCount, user_Points := points,
                 user_Subscribed := subscribed, user_Balance := balance\<rparr>"
    let ?w2 = "AList.update ?K (UserJson ?u') w1"
    from stored obtain b where b: "map_of w1 ?K = Some b" "UnmarshalUser b = Some u" by blast
    have upd: "UpdateUserData c w1 uploadCount points subscribed balance = (None, ?w2)"
      using p get put b by (simp add: UpdateUserData_def GetState_def PutState_def)
    have "GetAllCTIItems c ?w2 = Inr items"
      using items1 by (simp only: GetAllCTIItems_update_user)
    moreover have "GetUserData c ?w2 = (Inr ?u', ?w2)"
      using p get by (simp add: GetUserData_def GetState_def update_conv')
    ultimately have "GetCTIItemsFilteredBySubscriptionLevel c ?w2
        = (Inr (filter (\<lambda>ctiItem. cti_Level ctiItem \<le> subscribed) items), ?w2)"
      by (simp add: GetCTIItemsFilteredBySubscriptionLevel_def)
    with upd show ?thesis by blast
  qed
  have second: "client_id c = Some p
            \<and> (map_of w ?K = None \<longrightarrow>
                  u = \<lparr>user_ID = p, user_UserLevel = 0, user_UploadCount = 0, user_Points = 0,
                        user_Subscribed = 0, user_Balance = 0\<rparr>
                \<and> map_of w1 ?K = Some (UserJson u))
            \<and> (\<not> put_err c ?K \<longrightarrow>
                  (\<exists>w2. UpdateUserData c w1 uploadCount points subscribed balance = (None, w2)
                     \<and> GetCTIItemsFilteredBySubscriptionLevel c w2
                         = (Inr (filter (\<lambda>ctiItem. cti_Level ctiItem \<le> subscribed) items),
                            w2)))"
  proof (intro conjI impI)
    show "client_id c = Some p" by (rule p)
    show "u = \<lparr>user_ID = p, user_UserLevel = 0, user_UploadCount = 0, user_Points = 0,
                        user_Subscribed = 0, user_Balance = 0\<rparr>" if "map_of w ?K = None"
      using created [OF that] by (rule conjunct1)
    show "map_of w1 ?K = Some (UserJson u)" if "map_of w ?K = None"
      using created [OF that] by (rule conjunct2)
    show "\<exists>w2. UpdateUserData c w1 uploadCount points subscribed balance = (None, w2)
                     \<and> GetCTIItemsFilteredBySubscriptionLevel c w2
                         = (Inr (filter (\<lambda>ctiItem. cti_Level ctiItem \<le> subscribed) items),
                            w2)" if "\<not> put_err c ?K"
      using that by (rule raised)
  qed
  show ?thesis
    by (rule conjI [OF first]) (rule exI [of _ p], rule second)
qed

text \<open>
  C8. The query must return exactly the stored items whose \<open>Level\<close> is at most the
  caller's \<open>Subscribed\<close>, and after \<open>UpdateUserData\<close> raises \<open>Subscribed\<close> it must
  include the items hidden before. The filter, the creation of a first-time caller's
  account and the re-query are as required (lemma above), but the items come from
  \<open>GetAllCTIItems\<close>, which never lists the item under \<open>CTI_999999\<close>. On the ledger that
  holds the counter 999999 and, under \<open>CTI_999999\<close>, an item of \<open>Level\<close> 0 (found by
  \<open>GetCTIItem\<close>), the query of a first-time caller creates the zero account and returns
  no item, although \<open>Level\<close> 0 is at most \<open>Subscribed\<close> 0; after \<open>UpdateUserData\<close> has
  raised \<open>Subscribed\<close> to 5 the query still returns no item.
\<close>

theorem C8_filtered_query_misses_item_999999:
  "GetCTIItem (ok_ctx ''carol'')
       [(''latestID'', Text ''999999''), (''CTI_999999'', CTIJson (example_item ''999999'' 0))]
       999999
     = Inr (example_item ''999999'' 0)
   \<and> GetCTIItemsFilteredBySubscriptionLevel (ok_ctx ''carol'')
       [(''latestID'', Text ''999999''), (''CTI_999999'', CTIJson (example_item ''999999'' 0))]
     = (Inr [],
        [(''latestID'', Text ''999999''), (''CTI_999999'', CTIJson (example_item ''999999'' 0)),
         (''UserData_carol'', UserJson (example_account ''carol'' 0))])
   \<and> UpdateUserData (ok_ctx ''carol'')
       [(''latestID'', Text ''999999''), (''CTI_999999'', CTIJson (example_item ''999999'' 0)),
        (''UserData_carol'', UserJson (example_account ''carol'' 0))]
       0 0 5 0
     = (None,
        [(''latestID'', Text ''999999''), (''CTI_999999'', CTIJson (example_item ''999999'' 0)),
         (''UserData_carol'', UserJson (example_account ''carol'' 5))])
   \<and> GetCTIItemsFilteredBySubscriptionLevel (ok_ctx ''carol'')
       [(''latestID'', Text ''999999''), (''CTI_999999'', CTIJson (example_item ''999999'' 0)),
        (''UserData_carol'', UserJson (example_account ''carol'' 5))]
     = (Inr [],
        [(''latestID'', Text ''999999''), (''CTI_999999'', CTIJson (example_item ''999999'' 0)),
         (''UserData_carol'', UserJson (example_account ''carol'' 5))])"
  by (simp add: chaincode_defs stub_defs num_defs example_item_def example_account_def)

section \<open>The counter of the intel sequence\<close>

lemma Atoi_range: "Atoi s = Some n \<Longrightarrow> - (2 ^ 63) \<le> n \<and> n < 2 ^ 63"
  by (auto simp: Atoi_def Let_def split: list.splits option.splits if_splits)

lemma int_incr_range: "- (2 ^ 63) \<le> n \<Longrightarrow> n < 2 ^ 63 \<Longrightarrow> - (2 ^ 63) \<le> int_incr n \<and> int_incr n < 2 ^ 63"
  by (simp add: int_incr_def)

lemma Itoa_inject:
  assumes "- (2 ^ 63) \<le> a" "a < 2 ^ 63" "- (2 ^ 63) \<le> b" "b < 2 ^ 63" "Itoa a = Itoa b"
  shows "a = b"
proof -
  have "Some a = Atoi (Itoa a)" using assms(1,2) by (simp add: Atoi_Itoa)
  also have "\<dots> = Atoi (Itoa b)" using assms(5) by simp
  also have "\<dots> = Some b" using assms(3,4) by (simp add: Atoi_Itoa)
  finally show ?thesis by simp
qed

text \<open>What a successful \<open>AddCTIItem\<close> whose read of the counter works has done.\<close>

lemma AddCTIItem_success:
  assumes "\<not> get_err c ''latestID''"
    and "AddCTIItem c w name timestamp cid encryptKey points level = (None, w1)"
  shows "\<exists>m u. client_id c = Some u
           \<and> (case map_of w ''latestID'' of None \<Rightarrow> m = 1
               | Some b \<Rightarrow> (\<exists>n. AtoiBytes b = Some n \<and> m = int_incr n))
           \<and> w1 = AList.update ''latestID'' (Text (Itoa m))
                    (AList.update (''CTI_'' @ Itoa m)
                       (CTIJson \<lparr>cti_ID = Itoa m, cti_Name = name, cti_Uploader = u,
                          cti_Timestamp = timestamp, cti_CID = cid,
                          cti_EncryptKey = encryptKey, cti_Points = points,
                          cti_Level = level\<rparr>) w)"
  using assms
  by (auto simp: AddCTIItem_def GetState_def PutState_def Let_def
        split: option.splits sum.splits if_splits)

text \<open>When \<open>AddCTIItem\<close> succeeds: identity, read and both writes work, counter parses.\<close>

lemma AddCTIItem_runs:
  assumes "client_id c = Some u" and "\<not> get_err c ''latestID''"
    and "\<forall>k. \<not> put_err c k"
    and "case map_of w ''latestID'' of None \<Rightarrow> m = 1
         | Some b \<Rightarrow> (\<exists>n. AtoiBytes b = Some n \<and> m = int_incr n)"
  shows "AddCTIItem c w name timestamp cid encryptKey points level
     = (None, AList.update ''latestID'' (Text (Itoa m))
                    (AList.update (''CTI_'' @ Itoa m)
                       (CTIJson \<lparr>cti_ID = Itoa m, cti_Name = name, cti_Uploader = u,
                          cti_Timestamp = timestamp, cti_CID = cid,
                          cti_EncryptKey = encryptKey, cti_Points = points,
                          cti_Level = level\<rparr>) w))"
  using assms
  by (auto simp: AddCTIItem_def GetState_def PutState_def Let_def
        split: option.splits sum.splits if_splits)

lemma counter_step:
  assumes cnt: "map_of w ''latestID'' = (if k = 0 then None else Some (Text (Itoa (int k))))"
    and k: "k + 1 < 2 ^ 63"
    and m: "case map_of w ''latestID'' of None \<Rightarrow> m = 1
         | Some b \<Rightarrow> (\<exists>n. AtoiBytes b = Some n \<and> m = int_incr n)"
  shows "m = int k + 1"
proof (cases "k = 0")
  case True
  with cnt m show ?thesis by simp
next
  case False
  have "int k < 2 ^ 63" using k by (simp add: of_nat_less_numeral_power_cancel_iff)
  then have "Atoi (Itoa (int k)) = Some (int k)" by (simp add: Atoi_Itoa)
  moreover have "int k \<noteq> 2 ^ 63 - 1" using k by (simp add: of_nat_less_numeral_power_cancel_iff) 
  ultimately show ?thesis using False cnt m by (simp add: int_incr_def)
qed


lemma trace_counters:
  assumes "list_all (\<lambda>call. \<not> get_err (fst call) ''latestID'') calls"
    and "list_all (\<lambda>r. fst r = None) (AddCTIItem_trace calls w)"
    and "map_of w ''latestID'' = (if k = 0 then None else Some (Text (Itoa (int k))))"
    and "k + length calls < 2 ^ 63"
    and "j < length calls"
  shows "map_of (snd (AddCTIItem_trace calls w ! j)) ''latestID''
           = Some (Text (Itoa (int (k + j) + 1)))
       \<and> (\<exists>item. map_of (snd (AddCTIItem_trace calls w ! j)) (''CTI_'' @ Itoa (int (k + j) + 1))
                    = Some (CTIJson item)
                \<and> cti_ID item = Itoa (int (k + j) + 1))"
  using assms
proof (induction calls arbitrary: w k j)
  case Nil
  then show ?case by simp
next
  case (Cons call calls)
  obtain c name timestamp cid encryptKey points level
    where call: "call = (c, name, timestamp, cid, encryptKey, points, level)"
    by (cases call) auto
  obtain w1 where w1: "AddCTIItem c w name timestamp cid encryptKey points level = (None, w1)"
    using Cons.prems(2) call
    by (cases "AddCTIItem c w name timestamp cid encryptKey points level") auto
  have read: "\<not> get_err c ''latestID''" using Cons.prems(1) call by simp
  from AddCTIItem_success [OF read w1] obtain m u where
    m: "case map_of w ''latestID'' of None \<Rightarrow> m = 1
         | Some b \<Rightarrow> (\<exists>n. AtoiBytes b = Some n \<and> m = int_incr n)"
    and w1_eq: "w1 = AList.update ''latestID'' (Text (Itoa m))
                    (AList.update (''CTI_'' @ Itoa m)
                       (CTIJson \<lparr>cti_ID = Itoa m, cti_Name = name, cti_Uploader = u,
                          cti_Timestamp = timestamp, cti_CID = cid,
                          cti_EncryptKey = encryptKey, cti_Points = points,
                          cti_Level = level\<rparr>) w)"
    by blast
  have k1: "k + 1 < 2 ^ 63" using Cons.prems(4) by simp
  have m_eq: "m = int k + 1" using Cons.prems(3) k1 m by (rule counter_step)
  have cnt1: "map_of w1 ''latestID'' = Some (Text (Itoa (int k + 1)))"
    using w1_eq m_eq by (simp add: update_conv')
  have item1: "map_of w1 (''CTI_'' @ Itoa (int k + 1))
      = Some (CTIJson \<lparr>cti_ID = Itoa (int k + 1), cti_Name = name, cti_Uploader = u,
                          cti_Timestamp = timestamp, cti_CID = cid,
                          cti_EncryptKey = encryptKey, cti_Points = points,
                          cti_Level = level\<rparr>)"
    using w1_eq m_eq by (simp add: update_conv')
  show ?case
  proof (cases j)
    case 0
    with call w1 cnt1 item1 show ?thesis by simp
  next
    case (Suc j')
    have "map_of (snd (AddCTIItem_trace calls w1 ! j')) ''latestID''
           = Some (Text (Itoa (int (Suc k + j') + 1)))
       \<and> (\<exists>item. map_of (snd (AddCTIItem_trace calls w1 ! j'))
                       (''CTI_'' @ Itoa (int (Suc k + j') + 1))
                    = Some (CTIJson item)
                \<and> cti_ID item = Itoa (int (Suc k + j') + 1))"
    proof (rule Cons.IH)
      show "list_all (\<lambda>call. \<not> get_err (fst call) ''latestID'') calls"
        using Cons.prems(1) by simp
      show "list_all (\<lambda>r. fst r = None) (AddCTIItem_trace calls w1)"
        using Cons.prems(2) call w1 by simp
      show "map_of w1 ''latestID'' = (if Suc k = 0 then None else Some (Text (Itoa (int (Suc k)))))"
        using cnt1 by (simp add: add.commute)
      show "Suc k + length calls < 2 ^ 63" using Cons.prems(4) by simp
      show "j' < length calls" using Cons.prems(5) Suc by simp
    qed
    with Suc call w1 show ?thesis by simp
  qed
qed


lemma trace_append:
  "AddCTIItem_trace (xs @ ys) w
     = AddCTIItem_trace xs w
       @ AddCTIItem_trace ys (foldl (\<lambda>w call. snd (AddCTIItem_call call w)) w xs)"
  by (induction xs arbitrary: w) simp_all

lemma length_trace [simp]: "length (AddCTIItem_trace calls w) = length calls"
  by (induction calls arbitrary: w) simp_all

text \<open>Calls in a context where nothing fails succeed, and count.\<close>

lemma ok_calls_succeed:
  assumes "map_of w ''latestID'' = (if k = 0 then None else Some (Text (Itoa (int k))))"
    and "k + n < 2 ^ 63"
  shows "list_all (\<lambda>r. fst r = None)
           (AddCTIItem_trace (replicate n (ok_ctx u, a)) w)
       \<and> map_of (foldl (\<lambda>w call. snd (AddCTIItem_call call w)) w (replicate n (ok_ctx u, a)))
            ''latestID''
           = (if k + n = 0 then None else Some (Text (Itoa (int (k + n)))))"
  using assms
proof (induction n arbitrary: w k)
  case 0
  then show ?case by simp
next
  case (Suc n)
  obtain name timestamp cid encryptKey points level
    where a: "a = (name, timestamp, cid, encryptKey, points, level)"
    by (cases a) auto
  have k1: "k + 1 < 2 ^ 63" using Suc.prems(2) by simp
  have kr: "int k < 2 ^ 63" using k1 by (simp add: of_nat_less_numeral_power_cancel_iff)
  define m where "m = int k + 1"
  have m: "case map_of w ''latestID'' of None \<Rightarrow> m = 1
         | Some b \<Rightarrow> (\<exists>n. AtoiBytes b = Some n \<and> m = int_incr n)"
  proof (cases "k = 0")
    case True
    with Suc.prems(1) show ?thesis by (simp add: m_def)
  next
    case False
    have "Atoi (Itoa (int k)) = Some (int k)" using kr by (simp add: Atoi_Itoa)
    moreover have "int k \<noteq> 2 ^ 63 - 1"
      using k1 by (simp add: of_nat_less_numeral_power_cancel_iff)
    ultimately show ?thesis using False Suc.prems(1) by (simp add: m_def int_incr_def)
  qed
  let ?w1 = "AList.update ''latestID'' (Text (Itoa m))
                    (AList.update (''CTI_'' @ Itoa m)
                       (CTIJson \<lparr>cti_ID = Itoa m, cti_Name = name, cti_Uploader = u,
                          cti_Timestamp = timestamp, cti_CID = cid,
                          cti_EncryptKey = encryptKey, cti_Points = points,
                          cti_Level = level\<rparr>) w)"
  have run: "AddCTIItem (ok_ctx u) w name timestamp cid encryptKey points level = (None, ?w1)"
    by (rule AddCTIItem_runs [OF _ _ _ m]) (simp_all add: ok_ctx_def)
  have cnt1: "map_of ?w1 ''latestID''
                = (if Suc k = 0 then None else Some (Text (Itoa (int (Suc k)))))"
    by (simp add: update_conv' m_def add.commute)
  have "list_all (\<lambda>r. fst r = None) (AddCTIItem_trace (replicate n (ok_ctx u, a)) ?w1)
       \<and> map_of (foldl (\<lambda>w call. snd (AddCTIItem_call call w)) ?w1 (replicate n (ok_ctx u, a)))
            ''latestID''
           = (if Suc k + n = 0 then None else Some (Text (Itoa (int (Suc k + n)))))"
    using cnt1 by (rule Suc.IH) (use Suc.prems(2) in simp)
  with run a show ?case by simp
qed

lemma all_None_replicate:
  "list_all (\<lambda>r. fst r = None) rs \<Longrightarrow> map fst rs = replicate (length rs) None"
  by (induction rs) simp_all

lemma counter_wraps:
  assumes n: "int n = 2 ^ 63 - 1"
  shows "list_all (\<lambda>r. fst r = None) (AddCTIItem_trace (replicate (Suc n) (ok_ctx u, a)) [])
       \<and> stored_counter (snd (AddCTIItem_trace (replicate (Suc n) (ok_ctx u, a)) [] ! (n - 1)))
           = Some (2 ^ 63 - 1)
       \<and> stored_counter (snd (AddCTIItem_trace (replicate (Suc n) (ok_ctx u, a)) [] ! n))
           = Some (- (2 ^ 63))"
proof -
  let ?x = "(ok_ctx u, a)"
  let ?wf = "foldl (\<lambda>w call. snd (AddCTIItem_call call w)) [] (replicate n ?x)"
  obtain name timestamp cid encryptKey points level
    where a: "a = (name, timestamp, cid, encryptKey, points, level)"
    by (cases a) auto
  have n0: "0 < n" using n by (cases n) simp_all
  have nlt: "0 + n < (2::nat) ^ 63"
  proof -
    have "int n < 2 ^ 63" using n by simp
    then show ?thesis by (simp add: of_nat_less_numeral_power_cancel_iff)
  qed
  have split: "AddCTIItem_trace (replicate (Suc n) ?x) []
                 = AddCTIItem_trace (replicate n ?x) [] @ [AddCTIItem_call ?x ?wf]"
    using trace_append [of "replicate n ?x" "[?x]" "[]"]
    by (simp add: replicate_append_same)
  have first: "list_all (\<lambda>r. fst r = None) (AddCTIItem_trace (replicate n ?x) [])
       \<and> map_of ?wf ''latestID'' = (if 0 + n = 0 then None else Some (Text (Itoa (int (0 + n)))))"
    by (rule ok_calls_succeed) (use nlt in simp_all)
  then have ok_n: "list_all (\<lambda>r. fst r = None) (AddCTIItem_trace (replicate n ?x) [])"
    and cnt: "map_of ?wf ''latestID'' = Some (Text (Itoa (2 ^ 63 - 1)))"
    using n0 n by simp_all
  have parse: "Atoi (Itoa (2 ^ 63 - 1)) = Some (2 ^ 63 - 1)"
    by (rule Atoi_Itoa) simp_all
  have m: "case map_of ?wf ''latestID'' of None \<Rightarrow> - (2 ^ 63) = (1::int)
         | Some b \<Rightarrow> (\<exists>k. AtoiBytes b = Some k \<and> - (2 ^ 63) = int_incr k)"
    using cnt parse by (simp add: int_incr_def)
  let ?m = "- (2 ^ 63) :: int"
  let ?w1 = "AList.update ''latestID'' (Text (Itoa ?m))
                    (AList.update (''CTI_'' @ Itoa ?m)
                       (CTIJson \<lparr>cti_ID = Itoa ?m, cti_Name = name, cti_Uploader = u,
                          cti_Timestamp = timestamp, cti_CID = cid,
                          cti_EncryptKey = encryptKey, cti_Points = points,
                          cti_Level = level\<rparr>) ?wf)"
  have last: "AddCTIItem (ok_ctx u) ?wf name timestamp cid encryptKey points level = (None, ?w1)"
    by (rule AddCTIItem_runs [OF _ _ _ m]) (simp_all add: ok_ctx_def)
  have "Atoi (Itoa ?m) = Some ?m" by (rule Atoi_Itoa) simp_all
  then have after: "stored_counter ?w1 = Some ?m"
    by (simp add: stored_counter_def update_conv')
  have before: "stored_counter (snd (AddCTIItem_trace (replicate n ?x) [] ! (n - 1)))
                  = Some (2 ^ 63 - 1)"
  proof -
    have "map_of (snd (AddCTIItem_trace (replicate n ?x) [] ! (n - 1))) ''latestID''
           = Some (Text (Itoa (int (0 + (n - 1)) + 1)))"
      using trace_counters [of "replicate n ?x" "[]" 0 "n - 1"] ok_n nlt n0
      by (simp add: list_all_iff ok_ctx_def)
    moreover have "int (0 + (n - 1)) + 1 = 2 ^ 63 - 1" using n n0 by simp
    ultimately show ?thesis using parse by (simp add: stored_counter_def)
  qed
  have nth_before: "AddCTIItem_trace (replicate (Suc n) ?x) [] ! (n - 1)
                      = AddCTIItem_trace (replicate n ?x) [] ! (n - 1)"
    unfolding split using n0 by (simp add: nth_append)
  have nth_after: "AddCTIItem_trace (replicate (Suc n) ?x) [] ! n = AddCTIItem_call ?x ?wf"
    unfolding split by (simp add: nth_append)
  have all_ok: "list_all (\<lambda>r. fst r = None) (AddCTIItem_trace (replicate (Suc n) ?x) [])"
    unfolding split using ok_n last a by simp
  have B: "stored_counter (snd (AddCTIItem_trace (replicate (Suc n) ?x) [] ! (n - 1)))
             = Some (2 ^ 63 - 1)"
    unfolding nth_before by (rule before)
  have A: "stored_counter (snd (AddCTIItem_trace (replicate (Suc n) ?x) [] ! n))
             = Some (- (2 ^ 63))"
    unfolding nth_after using after last a by simp
  show ?thesis
    by (intro conjI) (rule all_ok, rule B, rule A)
qed

text \<open>
  C4, as the specification states it, speaks of every sequence of successful
  \<open>AddCTIItem\<close> calls from the empty ledger. The counter is a Go \<open>int\<close>, and neither
  allocator checks for overflow: when the stored counter is the largest 64-bit value,
  \<open>latestID++\<close> wraps around. In the sequence of \<open>2^63\<close> calls in a context where
  nothing fails, every call succeeds (returns \<open>nil\<close>), the counter stands at \<open>2^63 - 1\<close>
  after the call before the last, and the last call allocates \<open>-2^63\<close>: a value below
  all earlier ones, and a stored counter that has decreased.
\<close>

theorem C4_counterexample:
  "map fst (AddCTIItem_trace (replicate (2 ^ 63) (ok_ctx ''bob'', ''n'', 1, ''c'', ''k'', 2, 0)) [])
     = replicate (2 ^ 63) None
   \<and> stored_counter
        (snd (AddCTIItem_trace (replicate (2 ^ 63) (ok_ctx ''bob'', ''n'', 1, ''c'', ''k'', 2, 0)) []
              ! (2 ^ 63 - 2)))
       = Some (2 ^ 63 - 1)
   \<and> stored_counter
        (snd (AddCTIItem_trace (replicate (2 ^ 63) (ok_ctx ''bob'', ''n'', 1, ''c'', ''k'', 2, 0)) []
              ! (2 ^ 63 - 1)))
       = Some (- (2 ^ 63))"
proof -
  let ?calls = "replicate (2 ^ 63) (ok_ctx ''bob'', ''n'', 1::int, ''c'', ''k'', 2::int, 0::int)"
  have e1: "Suc (2 ^ 63 - 1) = 2 ^ 63" by simp
  have e2: "(2::nat) ^ 63 - 1 - 1 = 2 ^ 63 - 2" by simp
  have e3: "int (2 ^ 63 - 1) = 2 ^ 63 - 1" by simp
  note wraps = counter_wraps [OF e3, of "''bob''" "(''n'', 1, ''c'', ''k'', 2, 0)", unfolded e1 e2]
  have "list_all (\<lambda>r. fst r = None) (AddCTIItem_trace ?calls [])"
    using wraps by (rule conjunct1)
  then have "map fst (AddCTIItem_trace ?calls [])
               = replicate (length (AddCTIItem_trace ?calls [])) None"
    by (rule all_None_replicate)
  then have results: "map fst (AddCTIItem_trace ?calls []) = replicate (2 ^ 63) None"
    by (simp only: length_trace length_replicate)
  show ?thesis
    by (rule conjI [OF results]) (rule wraps [THEN conjunct2])
qed

text \<open>
  C4, amended. Take a sequence of fewer than \<open>2^63\<close> \<open>AddCTIItem\<close> calls from the
  empty ledger, all successful, in each of which the read of the counter succeeds. Then
  after the call with index \<open>j\<close> (the first has index 0) the stored counter is \<open>j + 1\<close>,
  and the item of that call is stored under \<open>CTI_(j+1)\<close> with the ID \<open>j + 1\<close> in
  decimal. So the first value is 1, every later value is greater than all values before
  it, the stored counter never decreases, and the IDs are pairwise distinct. Calls whose
  read of the counter fails are left out here: what \<open>AddCTIItem\<close> does then is the
  subject of C1.
\<close>

theorem C4_counter_counts_calls:
  assumes reads: "list_all (\<lambda>call. \<not> get_err (fst call) ''latestID'') calls"
    and ok: "list_all (\<lambda>r. fst r = None) (AddCTIItem_trace calls [])"
    and len: "length calls < 2 ^ 63"
  shows "(\<forall>j<length calls.
            stored_counter (snd (AddCTIItem_trace calls [] ! j)) = Some (int j + 1)
          \<and> (\<exists>item. map_of (snd (AddCTIItem_trace calls [] ! j)) (''CTI_'' @ Itoa (int j + 1))
                       = Some (CTIJson item)
                   \<and> cti_ID item = Itoa (int j + 1)))
       \<and> distinct (map (\<lambda>j. Itoa (int j + 1)) [0..<length calls])"
proof -
  have bound: "int j + 1 < 2 ^ 63" if "j < length calls" for j
  proof -
    have "j + 1 < 2 ^ 63" using that len by simp
    then have "int (j + 1) < 2 ^ 63" by (simp only: of_nat_less_numeral_power_cancel_iff)
    then show ?thesis by simp
  qed
  have each: "stored_counter (snd (AddCTIItem_trace calls [] ! j)) = Some (int j + 1)
          \<and> (\<exists>item. map_of (snd (AddCTIItem_trace calls [] ! j)) (''CTI_'' @ Itoa (int j + 1))
                       = Some (CTIJson item)
                   \<and> cti_ID item = Itoa (int j + 1))" if j: "j < length calls" for j
  proof -
    have tc: "map_of (snd (AddCTIItem_trace calls [] ! j)) ''latestID''
           = Some (Text (Itoa (int (0 + j) + 1)))
       \<and> (\<exists>item. map_of (snd (AddCTIItem_trace calls [] ! j)) (''CTI_'' @ Itoa (int (0 + j) + 1))
                    = Some (CTIJson item)
                \<and> cti_ID item = Itoa (int (0 + j) + 1))"
      by (rule trace_counters [OF reads ok]) (use len j in simp_all)
    have "Atoi (Itoa (int j + 1)) = Some (int j + 1)"
      by (rule Atoi_Itoa) (use bound [OF j] in simp_all)
    with tc show ?thesis by (simp add: stored_counter_def)
  qed
  have "inj_on (\<lambda>j. Itoa (int j + 1)) (set [0..<length calls])"
  proof (rule inj_onI)
    fix a b assume a: "a \<in> set [0..<length calls]" and b: "b \<in> set [0..<length calls]"
      and eq: "Itoa (int a + 1) = Itoa (int b + 1)"
    have "int a + 1 = int b + 1"
      by (rule Itoa_inject [OF _ _ _ _ eq]) (use a b bound in simp_all)
    then show "a = b" by simp
  qed
  then have "distinct (map (\<lambda>j. Itoa (int j + 1)) [0..<length calls])"
    by (simp add: distinct_map)
  with each show ?thesis by blast
qed

theorem C4_witness:
  "AddCTIItem_trace [(ok_ctx ''bob'', ''n'', 1, ''c'', ''k'', 2, 0),
                     (ok_ctx ''alice'', ''m'', 2, ''d'', ''l'', 3, 1)] []
     = [(None, [(''CTI_1'', CTIJson (example_item ''1'' 0)), (''latestID'', Text ''1'')]),
        (None, [(''CTI_1'', CTIJson (example_item ''1'' 0)), (''latestID'', Text ''2''),
                (''CTI_2'', CTIJson \<lparr>cti_ID = ''2'', cti_Name = ''m'', cti_Uploader = ''alice'',
                   cti_Timestamp = 2, cti_CID = ''d'', cti_EncryptKey = ''l'', cti_Points = 3,
                   cti_Level = 1\<rparr>)])]
   \<and> stored_counter
        (snd (AddCTIItem_trace [(ok_ctx ''bob'', ''n'', 1, ''c'', ''k'', 2, 0),
                     (ok_ctx ''alice'', ''m'', 2, ''d'', ''l'', 3, 1)] [] ! 0)) = Some 1
   \<and> stored_counter
        (snd (AddCTIItem_trace [(ok_ctx ''bob'', ''n'', 1, ''c'', ''k'', 2, 0),
                     (ok_ctx ''alice'', ''m'', 2, ''d'', ''l'', 3, 1)] [] ! 1)) = Some 2
   \<and> distinct [Itoa 1, Itoa 2]"
proof -
  let ?calls = "[(ok_ctx ''bob'', ''n'', 1, ''c'', ''k'', 2, 0),
                 (ok_ctx ''alice'', ''m'', 2, ''d'', ''l'', 3, 1)]"
  have tr: "AddCTIItem_trace ?calls []
     = [(None, [(''CTI_1'', CTIJson (example_item ''1'' 0)), (''latestID'', Text ''1'')]),
        (None, [(''CTI_1'', CTIJson (example_item ''1'' 0)), (''latestID'', Text ''2''),
                (''CTI_2'', CTIJson \<lparr>cti_ID = ''2'', cti_Name = ''m'', cti_Uploader = ''alice'',
                   cti_Timestamp = 2, cti_CID = ''d'', cti_EncryptKey = ''l'', cti_Points = 3,
                   cti_Level = 1\<rparr>)])]"
    by (simp add: chaincode_defs stub_defs num_defs example_item_def)
  have reads: "list_all (\<lambda>call. \<not> get_err (fst call) ''latestID'') ?calls"
    by (simp add: ok_ctx_def)
  have ok: "list_all (\<lambda>r. fst r = None) (AddCTIItem_trace ?calls [])"
    unfolding tr by simp
  have len: "length ?calls < 2 ^ 63" by simp
  note counts = C4_counter_counts_calls [OF reads ok len]
  have c0: "stored_counter (snd (AddCTIItem_trace ?calls [] ! 0)) = Some 1"
    using counts [THEN conjunct1, rule_format, of 0] by simp
  have c1: "stored_counter (snd (AddCTIItem_trace ?calls [] ! 1)) = Some 2"
    using counts [THEN conjunct1, rule_format, of 1] by simp
  have d: "distinct [Itoa 1, Itoa 2]"
    using counts [THEN conjunct2] by (simp add: upt_rec)
  from tr c0 c1 d show ?thesis by (intro conjI)
qed

end
